theory Spec2Isabelle
  imports Main "HOL-Library.Char_ord" "HOL-Library.List_Lexorder"
    "HOL-Library.Product_Lexorder" "HOL-Library.Word"
begin

section \<open>Python strings\<close>

text \<open>
  Python \<open>str\<close> values are modelled as \<open>string\<close> (lists of 8-bit characters), so the
  development speaks about ASCII text: \<open>str.lower\<close> maps the letters \<open>A\<close>..\<open>Z\<close> to
  \<open>a\<close>..\<open>z\<close> and leaves every other character alone, and \<open>str.strip\<close> removes the
  ASCII white space characters Python knows (codes 9-13, 28-32) from both ends.
\<close>

definition upper_letters :: string where
  "upper_letters = ''ABCDEFGHIJKLMNOPQRSTUVWXYZ''"

definition lower_letters :: string where
  "lower_letters = ''abcdefghijklmnopqrstuvwxyz''"

definition lower_char :: "char \<Rightarrow> char" where
  "lower_char c = (case map_of (zip upper_letters lower_letters) c of Some d \<Rightarrow> d | None \<Rightarrow> c)"

definition lower :: "string \<Rightarrow> string" where
  "lower s = map lower_char s"

definition is_space :: "char \<Rightarrow> bool" where
  "is_space c = ((of_char c :: nat) \<in> {9, 10, 11, 12, 13, 28, 29, 30, 31, 32})"

definition strip :: "string \<Rightarrow> string" where
  "strip s = rev (dropWhile is_space (rev (dropWhile is_space s)))"

text \<open>\<open>s.rstrip('.')\<close>: every trailing dot is removed.\<close>

definition rstrip_dot :: "string \<Rightarrow> string" where
  "rstrip_dot s = rev (dropWhile (\<lambda>c. c = CHR ''.'') (rev s))"

text \<open>\<open>s.startswith(p)\<close>, \<open>s.endswith(p)\<close> and the substring test \<open>sub in s\<close>.\<close>

fun startswith :: "string \<Rightarrow> string \<Rightarrow> bool" where
  "startswith s [] = True"
| "startswith [] (p # ps) = False"
| "startswith (c # cs) (p # ps) = (c = p \<and> startswith cs ps)"

definition endswith :: "string \<Rightarrow> string \<Rightarrow> bool" where
  "endswith s p = startswith (rev s) (rev p)"

fun py_in :: "string \<Rightarrow> string \<Rightarrow> bool" where
  "py_in sub [] = (sub = [])"
| "py_in sub (c # cs) = (startswith (c # cs) sub \<or> py_in sub cs)"

text \<open>
  The domain test shared by the whitelist, the blocklist, the category tables and the
  schedules: \<open>domain == entry or domain.endswith('.' + entry)\<close>.
\<close>

definition domain_matches :: "string \<Rightarrow> string \<Rightarrow> bool" where
  "domain_matches domain entry = (domain = entry \<or> endswith domain (CHR ''.'' # entry))"

text \<open>
  The regular-expression engine (Python's \<open>re\<close>) is outside the repository. It enters as a
  parameter: \<open>re_search pattern ignore_case text\<close> is the matched text of the leftmost match,
  or \<open>None\<close>; \<open>re_escape\<close> is \<open>re.escape\<close>.
\<close>

record re_lib =
  re_search :: "string \<Rightarrow> bool \<Rightarrow> string \<Rightarrow> string option"
  re_escape :: "string \<Rightarrow> string"

section \<open>Exceptions and library functions\<close>

text \<open>
  The exceptions that the modelled code lets library calls raise. A function that can
  raise returns \<open>py_error + 'a\<close>, with \<open>Inl\<close> for the exception.
\<close>

datatype py_error = ValueError | UnicodeDecodeError

section \<open>Block categories (\<open>blocking/categories.py\<close>)\<close>

datatype BlockCategory =
  ADULT | GAMBLING | SOCIAL_MEDIA | GAMING | STREAMING | DATING | VIOLENCE | DRUGS
  | WEAPONS | MALWARE | PHISHING | ADVERTISING | CRYPTOCURRENCY | VPN_PROXY
  | FILE_SHARING | MESSAGING | CUSTOM

text \<open>\<open>category.value\<close> of the enumeration.\<close>

fun category_value :: "BlockCategory \<Rightarrow> string" where
  "category_value ADULT = ''adult''"
| "category_value GAMBLING = ''gambling''"
| "category_value SOCIAL_MEDIA = ''social_media''"
| "category_value GAMING = ''gaming''"
| "category_value STREAMING = ''streaming''"
| "category_value DATING = ''dating''"
| "category_value VIOLENCE = ''violence''"
| "category_value DRUGS = ''drugs''"
| "category_value WEAPONS = ''weapons''"
| "category_value MALWARE = ''malware''"
| "category_value PHISHING = ''phishing''"
| "category_value ADVERTISING = ''advertising''"
| "category_value CRYPTOCURRENCY = ''cryptocurrency''"
| "category_value VPN_PROXY = ''vpn_proxy''"
| "category_value FILE_SHARING = ''file_sharing''"
| "category_value MESSAGING = ''messaging''"
| "category_value CUSTOM = ''custom''"

text \<open>
  Of a \<open>CategoryDefinition\<close> the checks read the domain set and the keyword list only; the
  display name, description and severity are left out. A Python \<open>set\<close> of strings that is
  only iterated with an early \<open>return\<close>/\<open>break\<close> on the first hit is written as a list of
  its members: the outcome does not depend on the iteration order.
\<close>

record CategoryDefinition =
  cd_domains :: "string list"
  cd_keywords :: "string list"

text \<open>
  The module dictionary \<open>CATEGORY_DEFINITIONS\<close> is mutable (two entries are filled from
  threat feeds at run time), so the functions below take the table as a parameter, as the
  list of its items in dictionary order. The built-in table is:
\<close>

definition CATEGORY_DEFINITIONS :: "(BlockCategory \<times> CategoryDefinition) list" where
  "CATEGORY_DEFINITIONS = [
    (ADULT, \<lparr>cd_domains =
        [''pornhub.com'', ''xvideos.com'', ''xnxx.com'', ''xhamster.com'', ''redtube.com'',
         ''youporn.com'', ''tube8.com'', ''spankbang.com'', ''brazzers.com'',
         ''bangbros.com'', ''onlyfans.com'', ''chaturbate.com'', ''stripchat.com'',
         ''livejasmin.com'', ''cam4.com'', ''bongacams.com'', ''porntrex.com'',
         ''hqporner.com'', ''eporner.com'', ''tnaflix.com''],
      cd_keywords = [''porn'', ''xxx'', ''adult'', ''nsfw'', ''nude'', ''naked'', ''sex video'',
         ''hardcore'', ''escort'']\<rparr>),
    (GAMBLING, \<lparr>cd_domains =
        [''bet365.com'', ''draftkings.com'', ''fanduel.com'', ''betmgm.com'',
         ''caesars.com'', ''pokerstars.com'', ''888poker.com'', ''partypoker.com'',
         ''bovada.lv'', ''stake.com'', ''betway.com'', ''unibet.com'', ''williamhill.com'',
         ''paddypower.com'', ''ladbrokes.com'', ''betfair.com'', ''1xbet.com'',
         ''pinnacle.com''],
      cd_keywords = [''gambling'', ''casino'', ''poker'', ''betting'', ''sportsbook'', ''slot machine'',
         ''blackjack'', ''roulette'']\<rparr>),
    (SOCIAL_MEDIA, \<lparr>cd_domains =
        [''facebook.com'', ''instagram.com'', ''twitter.com'', ''x.com'', ''tiktok.com'',
         ''snapchat.com'', ''linkedin.com'', ''pinterest.com'', ''tumblr.com'',
         ''reddit.com'', ''threads.net'', ''mastodon.social'', ''bsky.app'',
         ''truthsocial.com''],
      cd_keywords = []\<rparr>),
    (GAMING, \<lparr>cd_domains =
        [''steampowered.com'', ''store.steampowered.com'', ''epicgames.com'', ''roblox.com'',
         ''minecraft.net'', ''fortnite.com'', ''ea.com'', ''blizzard.com'', ''ubisoft.com'',
         ''xbox.com'', ''playstation.com'', ''nintendo.com'', ''gog.com'', ''twitch.tv'',
         ''itch.io'', ''kongregate.com'', ''miniclip.com'', ''poki.com'', ''crazygames.com''],
      cd_keywords = []\<rparr>),
    (STREAMING, \<lparr>cd_domains =
        [''youtube.com'', ''netflix.com'', ''hulu.com'', ''disneyplus.com'', ''hbomax.com'',
         ''max.com'', ''peacocktv.com'', ''paramountplus.com'', ''primevideo.com'',
         ''twitch.tv'', ''crunchyroll.com'', ''funimation.com'', ''spotify.com'',
         ''soundcloud.com'', ''pandora.com'', ''tidal.com'', ''deezer.com'', ''vimeo.com'',
         ''dailymotion.com''],
      cd_keywords = []\<rparr>),
    (DATING, \<lparr>cd_domains =
        [''tinder.com'', ''bumble.com'', ''hinge.co'', ''match.com'', ''okcupid.com'',
         ''plentyoffish.com'', ''eharmony.com'', ''zoosk.com'', ''grindr.com'', ''her.app'',
         ''coffee-meets-bagel.com''],
      cd_keywords = [''dating'', ''hookup'', ''singles'', ''meet singles'']\<rparr>),
    (VIOLENCE, \<lparr>cd_domains =
        [''liveleak.com'', ''bestgore.com'', ''theync.com'', ''crazyshit.com'',
         ''documentingreality.com''],
      cd_keywords = [''gore'', ''death video'', ''execution'', ''murder video'']\<rparr>),
    (DRUGS, \<lparr>cd_domains =
        [''erowid.org'', ''drugs-forum.com'', ''420magazine.com'', ''grasscity.com'',
         ''shroomery.org''],
      cd_keywords = [''buy drugs'', ''drug dealer'', ''cannabis seeds'', ''psychedelics'']\<rparr>),
    (WEAPONS, \<lparr>cd_domains =
        [''gunbroker.com'', ''budsgunshop.com'', ''palmettostatearmory.com'',
         ''cheaperthandirt.com'', ''midwayusa.com''],
      cd_keywords = [''buy guns'', ''firearms sale'', ''ammunition sale'']\<rparr>),
    (VPN_PROXY, \<lparr>cd_domains =
        [''nordvpn.com'', ''expressvpn.com'', ''surfshark.com'', ''cyberghostvpn.com'',
         ''privateinternetaccess.com'', ''protonvpn.com'', ''mullvad.net'',
         ''torproject.org'', ''hidemyass.com'', ''hotspotshield.com'', ''tunnelbear.com'',
         ''windscribe.com'', ''hide.me'', ''proxify.com'', ''kproxy.com'', ''proxysite.com'',
         ''whoer.net''],
      cd_keywords = [''vpn download'', ''anonymous proxy'', ''hide ip'', ''unblock sites'']\<rparr>),
    (FILE_SHARING, \<lparr>cd_domains =
        [''thepiratebay.org'', ''1337x.to'', ''rarbg.to'', ''yts.mx'',
         ''kickasstorrents.to'', ''limetorrents.info'', ''torrentz2.eu'', ''nyaa.si'',
         ''rutracker.org'', ''mega.nz'', ''rapidgator.net'', ''mediafire.com'',
         ''zippyshare.com''],
      cd_keywords = [''torrent download'', ''free movies download'', ''pirated'']\<rparr>),
    (MESSAGING, \<lparr>cd_domains =
        [''whatsapp.com'', ''web.whatsapp.com'', ''telegram.org'', ''web.telegram.org'',
         ''signal.org'', ''discord.com'', ''slack.com'', ''messenger.com'',
         ''teams.microsoft.com'', ''zoom.us'', ''skype.com'', ''viber.com''],
      cd_keywords = []\<rparr>),
    (ADVERTISING, \<lparr>cd_domains =
        [''doubleclick.net'', ''googlesyndication.com'', ''googleadservices.com'',
         ''facebook.com/tr'', ''adnxs.com'', ''criteo.com'', ''taboola.com'',
         ''outbrain.com'', ''amazon-adsystem.com'', ''adsrvr.org''],
      cd_keywords = []\<rparr>),
    (CRYPTOCURRENCY, \<lparr>cd_domains =
        [''coinbase.com'', ''binance.com'', ''kraken.com'', ''crypto.com'',
         ''robinhood.com'', ''ftx.com'', ''kucoin.com'', ''gemini.com'', ''bitfinex.com'',
         ''blockchain.com'', ''nicehash.com''],
      cd_keywords = [''buy bitcoin'', ''crypto trading'', ''mining pool'']\<rparr>),
    (MALWARE, \<lparr>cd_domains =
        [],
      cd_keywords = []\<rparr>),
    (PHISHING, \<lparr>cd_domains =
        [],
      cd_keywords = []\<rparr>),
    (CUSTOM, \<lparr>cd_domains =
        [],
      cd_keywords = []\<rparr>)]"

definition check_domain_category ::
  "(BlockCategory \<times> CategoryDefinition) list \<Rightarrow> string \<Rightarrow> BlockCategory list" where
  "check_domain_category defs domain0 =
     (let domain = lower domain0
      in map fst (filter (\<lambda>(category, definition).
            \<exists>blocked_domain \<in> set (cd_domains definition). domain_matches domain blocked_domain)
          defs))"

definition check_url_keywords ::
  "(BlockCategory \<times> CategoryDefinition) list \<Rightarrow> string \<Rightarrow> string \<Rightarrow> BlockCategory list" where
  "check_url_keywords defs url content =
     (let combined = lower (url @ '' '' @ content)
      in map fst (filter (\<lambda>(category, definition).
            \<exists>keyword \<in> set (cd_keywords definition). py_in (lower keyword) combined)
          defs))"

section \<open>Schedules (\<open>blocking/schedules.py\<close>)\<close>

datatype DayOfWeek = MONDAY | TUESDAY | WEDNESDAY | THURSDAY | FRIDAY | SATURDAY | SUNDAY

datatype ScheduleType = ALWAYS_BLOCK | NEVER_BLOCK | TIME_RANGE | ALLOW_RANGE | CUSTOM_TYPE

text \<open>
  A \<open>datetime.time\<close> and the parts of a \<open>datetime\<close> that the schedules read: its date
  (year, month, day), \<open>dt.weekday()\<close> and \<open>dt.time()\<close>. Times compare lexicographically on
  (hour, minute, second, microsecond); dates on (year, month, day).
\<close>

record pytime =
  hour :: nat
  minute :: nat
  second :: nat
  microsecond :: nat

definition time_key :: "pytime \<Rightarrow> nat" where
  "time_key t = ((hour t * 60 + minute t) * 60 + second t) * 1000000 + microsecond t"

definition time_le :: "pytime \<Rightarrow> pytime \<Rightarrow> bool" where
  "time_le a b = (time_key a \<le> time_key b)"

text \<open>
  The constructor \<open>time(hour, minute)\<close> on Python integers: it raises \<open>ValueError\<close>
  unless the hour is in 0..23 and the minute in 0..59.
\<close>

definition mk_time :: "int \<Rightarrow> int \<Rightarrow> py_error + pytime" where
  "mk_time h m =
     (if 0 \<le> h \<and> h < 24 \<and> 0 \<le> m \<and> m < 60
      then Inr \<lparr>hour = nat h, minute = nat m, second = 0, microsecond = 0\<rparr>
      else Inl ValueError)"

type_synonym pydate = "nat \<times> nat \<times> nat"

fun date_lt :: "pydate \<Rightarrow> pydate \<Rightarrow> bool" where
  "date_lt (y1, m1, d1) (y2, m2, d2) =
     (y1 < y2 \<or> (y1 = y2 \<and> (m1 < m2 \<or> (m1 = m2 \<and> d1 < d2))))"

record pydatetime =
  dt_date :: pydate
  dt_weekday :: DayOfWeek
  dt_time :: pytime

text \<open>
  The environment of the schedules: the reading of \<open>datetime.now()\<close> and the date
  parser of the standard library, \<open>py_strptime text\<close> being the date of
  \<open>datetime.strptime(text, "%Y-%m-%d")\<close> or the \<open>ValueError\<close> it raises.
\<close>

record py_env =
  py_now :: pydatetime
  py_strptime :: "string \<Rightarrow> py_error + pydate"

record TimeRange =
  start_hour :: int
  start_minute :: int
  end_hour :: int
  end_minute :: int

text \<open>\<open>TimeRange.contains\<close>: both bounds are built before they are compared.\<close>

definition contains :: "TimeRange \<Rightarrow> pytime \<Rightarrow> py_error + bool" where
  "contains r t =
     (case mk_time (start_hour r) (start_minute r) of
        Inl err \<Rightarrow> Inl err
      | Inr start \<Rightarrow>
          (case mk_time (end_hour r) (end_minute r) of
             Inl err \<Rightarrow> Inl err
           | Inr end' \<Rightarrow>
               Inr (if time_le start end' then time_le start t \<and> time_le t end'
                    else time_le start t \<or> time_le t end')))"

text \<open>
  The schedule. \<open>start_date\<close> and \<open>end_date\<close> are the stored texts; \<open>time_ranges\<close> is the
  dictionary from weekday to ranges.
\<close>

record Schedule =
  s_id :: string
  s_name :: string
  schedule_type :: ScheduleType
  s_enabled :: bool
  s_categories :: "string set"
  s_domains :: "string set"
  time_ranges :: "DayOfWeek \<rightharpoonup> TimeRange list"
  start_date :: "string option"
  end_date :: "string option"
  priority :: int
  s_created_at :: "string option"
  s_updated_at :: "string option"

text \<open>
  The two loops over the ranges of the day in \<open>is_active_now\<close> both stop at the first
  range that contains the time; \<open>any_contains\<close> tells whether there is one. A range
  whose bounds are no time of day raises when the loop reaches it.
\<close>

fun any_contains :: "TimeRange list \<Rightarrow> pytime \<Rightarrow> py_error + bool" where
  "any_contains [] t = Inr False"
| "any_contains (time_range # rest) t =
     (case contains time_range t of
        Inl err \<Rightarrow> Inl err
      | Inr inside \<Rightarrow> if inside then Inr True else any_contains rest t)"

text \<open>
  The test of one end of the date window: \<open>before\<close> tells which way the dates are
  compared. A missing or empty text is skipped; a text is parsed, which can raise.
  The result is whether \<open>is_active_now\<close> returns \<open>False\<close> here.
\<close>

definition outside_window ::
  "py_env \<Rightarrow> string option \<Rightarrow> (pydate \<Rightarrow> pydate \<Rightarrow> bool) \<Rightarrow> py_error + bool" where
  "outside_window env date_text before =
     (case date_text of
        None \<Rightarrow> Inr False
      | Some t \<Rightarrow>
          if t = [] then Inr False
          else (case py_strptime env t of
                  Inl err \<Rightarrow> Inl err
                | Inr bound \<Rightarrow> Inr (before (dt_date (py_now env)) bound)))"

text \<open>\<open>Schedule.is_active_now\<close>, called without a \<open>dt\<close>: the clock is read.\<close>

definition is_active_now :: "py_env \<Rightarrow> Schedule \<Rightarrow> py_error + bool" where
  "is_active_now env s =
     (if \<not> s_enabled s then Inr False
      else
        case outside_window env (start_date s) (\<lambda>today start. date_lt today start) of
          Inl err \<Rightarrow> Inl err
        | Inr too_early \<Rightarrow>
            if too_early then Inr False
            else
              (case outside_window env (end_date s) (\<lambda>today end'. date_lt end' today) of
                 Inl err \<Rightarrow> Inl err
               | Inr too_late \<Rightarrow>
                   if too_late then Inr False
                   else if schedule_type s = ALWAYS_BLOCK then Inr True
                   else if schedule_type s = NEVER_BLOCK then Inr False
                   else
                     let current_time = dt_time (py_now env);
                         day_ranges = (case time_ranges s (dt_weekday (py_now env)) of
                                         Some rs \<Rightarrow> rs | None \<Rightarrow> [])
                     in if schedule_type s = TIME_RANGE
                          then any_contains day_ranges current_time
                        else if schedule_type s = ALLOW_RANGE
                          then (case any_contains day_ranges current_time of
                                  Inl err \<Rightarrow> Inl err
                                | Inr inside \<Rightarrow> Inr (\<not> inside))
                        else Inr False))"

text \<open>\<open>Schedule.should_block\<close>; an empty \<open>domain\<close> or \<open>category\<close> argument is falsy.\<close>

definition Schedule_should_block ::
  "py_env \<Rightarrow> Schedule \<Rightarrow> string \<Rightarrow> string \<Rightarrow> py_error + bool" where
  "Schedule_should_block env s domain category =
     (case is_active_now env s of
        Inl err \<Rightarrow> Inl err
      | Inr active \<Rightarrow>
          Inr (if \<not> active then False
               else if domain \<noteq> []
                       \<and> (\<exists>blocked \<in> s_domains s. domain_matches (lower domain) blocked)
                 then True
               else if category \<noteq> [] \<and> lower category \<in> lower ` s_categories s then True
               else if s_domains s = {} \<and> s_categories s = {} then True
               else False))"

text \<open>
  The manager keeps \<open>schedules: Dict[str, Schedule]\<close>. A Python dictionary iterates in
  insertion order, so it is an association list with distinct keys; assigning to a key that
  is present replaces the value in place, a new key goes to the end.
\<close>

fun dict_set :: "('k \<times> 'v) list \<Rightarrow> 'k \<Rightarrow> 'v \<Rightarrow> ('k \<times> 'v) list" where
  "dict_set [] k v = [(k, v)]"
| "dict_set ((k', v') # kvs) k v =
     (if k' = k then (k, v) # kvs else (k', v') # dict_set kvs k v)"

definition dict_values :: "('k \<times> 'v) list \<Rightarrow> 'v list" where
  "dict_values d = map snd d"

record ScheduleManager =
  schedules :: "(string \<times> Schedule) list"

text \<open>
  \<open>sorted(values, key=lambda s: s.priority, reverse=True)\<close>: Python's sort is stable and
  \<open>reverse=True\<close> keeps the original order of elements with equal keys, which is the
  stable ascending sort on the negated priority.
\<close>

definition sorted_schedules :: "ScheduleManager \<Rightarrow> Schedule list" where
  "sorted_schedules m = sort_key (\<lambda>s. - priority s) (dict_values (schedules m))"

text \<open>The loop of the manager has no handler: an exception of a schedule ends it.\<close>

fun should_block_loop ::
  "py_env \<Rightarrow> Schedule list \<Rightarrow> string \<Rightarrow> string \<Rightarrow> py_error + bool \<times> string option" where
  "should_block_loop env [] domain category = Inr (False, None)"
| "should_block_loop env (schedule # rest) domain category =
     (case Schedule_should_block env schedule domain category of
        Inl err \<Rightarrow> Inl err
      | Inr blocked \<Rightarrow>
          if blocked then Inr (True, Some (s_id schedule))
          else should_block_loop env rest domain category)"

text \<open>
  \<open>ScheduleManager.should_block\<close>. Its \<open>dt\<close> argument is never passed on: each schedule
  reads the clock itself.
\<close>

definition Manager_should_block ::
  "py_env \<Rightarrow> ScheduleManager \<Rightarrow> string \<Rightarrow> string \<Rightarrow> py_error + bool \<times> string option" where
  "Manager_should_block env m domain category =
     should_block_loop env (sorted_schedules m) domain category"

definition add_schedule :: "string \<Rightarrow> ScheduleManager \<Rightarrow> Schedule \<Rightarrow> ScheduleManager" where
  "add_schedule stamp m schedule =
     (let schedule' = schedule\<lparr>s_created_at := Some stamp, s_updated_at := Some stamp\<rparr>
      in m\<lparr>schedules := dict_set (schedules m) (s_id schedule') schedule'\<rparr>)"

section \<open>The blocking engine (\<open>blocking/blocker.py\<close>)\<close>

record BlockRule =
  br_id :: string
  br_rule_type :: string
  br_value :: string
  br_enabled :: bool
  br_reason :: string
  br_created_at :: "string option"

text \<open>A \<open>BlockDecision\<close> without its time stamp.\<close>

record BlockDecision =
  should_block :: bool
  reason :: string
  rule_id :: "string option"
  rule_type :: "string option"
  category :: "string option"
  schedule_id :: "string option"

text \<open>
  The policy fields of the engine, in the order of \<open>__init__\<close>. A compiled URL pattern is
  kept as its source text (\<open>pattern.pattern\<close>); all of them are compiled with \<open>re.I\<close>.
  \<open>custom_rules\<close> is a dictionary, hence an association list in insertion order.
\<close>

record policy =
  blocked_domains :: "string set"
  blocked_categories :: "BlockCategory set"
  blocked_keywords :: "string list"
  url_patterns :: "string list"
  custom_rules :: "(string \<times> BlockRule) list"
  whitelisted_domains :: "string set"

text \<open>
  The engine: the policy fields, the schedule manager and the contents of the
  configuration file, which \<open>_save_config\<close> overwrites with the current policy
  (\<open>None\<close>: no file yet). The block callbacks only observe decisions and are left out.
\<close>

record BlockingEngine = policy +
  schedule_manager :: ScheduleManager
  config_file :: "policy option"

definition policy_of :: "BlockingEngine \<Rightarrow> policy" where
  "policy_of e =
     \<lparr>blocked_domains = blocked_domains e,
      blocked_categories = blocked_categories e,
      blocked_keywords = blocked_keywords e,
      url_patterns = url_patterns e,
      custom_rules = custom_rules e,
      whitelisted_domains = whitelisted_domains e\<rparr>"

definition save_config :: "BlockingEngine \<Rightarrow> BlockingEngine" where
  "save_config e = e\<lparr>config_file := Some (policy_of e)\<rparr>"

definition block_domain :: "BlockingEngine \<Rightarrow> string \<Rightarrow> BlockingEngine" where
  "block_domain e domain0 =
     (let domain = strip (lower domain0)
      in save_config (e\<lparr>blocked_domains := insert domain (blocked_domains e)\<rparr>))"

definition unblock_domain :: "BlockingEngine \<Rightarrow> string \<Rightarrow> BlockingEngine" where
  "unblock_domain e domain0 =
     (let domain = strip (lower domain0)
      in save_config (e\<lparr>blocked_domains := blocked_domains e - {domain}\<rparr>))"

definition is_whitelisted :: "BlockingEngine \<Rightarrow> string \<Rightarrow> bool" where
  "is_whitelisted e domain = (\<exists>whitelisted \<in> whitelisted_domains e. domain_matches domain whitelisted)"

definition check_domain_block :: "BlockingEngine \<Rightarrow> string \<Rightarrow> bool" where
  "check_domain_block e domain = (\<exists>blocked \<in> blocked_domains e. domain_matches domain blocked)"

fun url_patterns_loop :: "re_lib \<Rightarrow> string list \<Rightarrow> string \<Rightarrow> string option" where
  "url_patterns_loop R [] url = None"
| "url_patterns_loop R (pattern # rest) url =
     (if re_search R pattern True url \<noteq> None then Some pattern
      else url_patterns_loop R rest url)"

definition check_url_patterns :: "re_lib \<Rightarrow> BlockingEngine \<Rightarrow> string \<Rightarrow> string option" where
  "check_url_patterns R e url = url_patterns_loop R (url_patterns e) url"

fun keywords_loop :: "string list \<Rightarrow> string \<Rightarrow> string option" where
  "keywords_loop [] combined = None"
| "keywords_loop (keyword # rest) combined =
     (if py_in (lower keyword) combined then Some keyword else keywords_loop rest combined)"

definition check_keywords :: "BlockingEngine \<Rightarrow> string \<Rightarrow> string \<Rightarrow> string option" where
  "check_keywords e url content =
     keywords_loop (blocked_keywords e) (lower (url @ '' '' @ content))"

text \<open>
  Truth value of an \<open>Optional[str]\<close> in a condition: \<open>None\<close> and the empty string are
  false.
\<close>

definition truthy :: "string option \<Rightarrow> bool" where
  "truthy r = (case r of None \<Rightarrow> False | Some t \<Rightarrow> t \<noteq> [])"

definition block_decision ::
  "string \<Rightarrow> string option \<Rightarrow> string option \<Rightarrow> string option \<Rightarrow> string option \<Rightarrow> BlockDecision" where
  "block_decision why rid rtype cat sid =
     \<lparr>should_block = True, reason = why, rule_id = rid, rule_type = rtype,
      category = cat, schedule_id = sid\<rparr>"

definition allow_decision :: "string \<Rightarrow> BlockDecision" where
  "allow_decision why =
     \<lparr>should_block = False, reason = why, rule_id = None, rule_type = None,
      category = None, schedule_id = None\<rparr>"

text \<open>The loops of \<open>check\<close>; each returns the decision of its first hit.\<close>

fun category_loop :: "BlockingEngine \<Rightarrow> BlockCategory list \<Rightarrow> BlockDecision option" where
  "category_loop e [] = None"
| "category_loop e (c # cs) =
     (if c \<in> blocked_categories e
      then Some (block_decision (''Category blocked: '' @ category_value c) None
                   (Some ''category'') (Some (category_value c)) None)
      else category_loop e cs)"

text \<open>
  A schedule id is interpolated into the reason text; \<open>should_block\<close> returns an id
  whenever it returns \<open>True\<close>.
\<close>

definition schedule_reason :: "string option \<Rightarrow> string" where
  "schedule_reason sid = ''Blocked by schedule: '' @ (case sid of Some i \<Rightarrow> i | None \<Rightarrow> ''None'')"

fun schedule_category_loop ::
  "py_env \<Rightarrow> BlockingEngine \<Rightarrow> string \<Rightarrow> BlockCategory list
     \<Rightarrow> py_error + BlockDecision option" where
  "schedule_category_loop env e domain [] = Inr None"
| "schedule_category_loop env e domain (c # cs) =
     (case Manager_should_block env (schedule_manager e) domain (category_value c) of
        Inl err \<Rightarrow> Inl err
      | Inr (blocked, sid) \<Rightarrow>
          if blocked
          then Inr (Some (block_decision (schedule_reason sid) None (Some ''schedule'')
                            (Some (category_value c)) sid))
          else schedule_category_loop env e domain cs)"

definition schedule_step ::
  "py_env \<Rightarrow> BlockingEngine \<Rightarrow> string \<Rightarrow> BlockCategory list
     \<Rightarrow> py_error + BlockDecision option" where
  "schedule_step env e domain categories =
     (case schedule_category_loop env e domain categories of
        Inl err \<Rightarrow> Inl err
      | Inr (Some d) \<Rightarrow> Inr (Some d)
      | Inr None \<Rightarrow>
          (case Manager_should_block env (schedule_manager e) domain [] of
             Inl err \<Rightarrow> Inl err
           | Inr (blocked, sid) \<Rightarrow>
               if blocked
               then Inr (Some (block_decision (schedule_reason sid) None (Some ''schedule'')
                                 None sid))
               else Inr None))"

fun keyword_category_loop :: "BlockingEngine \<Rightarrow> BlockCategory list \<Rightarrow> BlockDecision option" where
  "keyword_category_loop e [] = None"
| "keyword_category_loop e (c # cs) =
     (if c \<in> blocked_categories e
      then Some (block_decision (''Keyword matched in '' @ category_value c) None
                   (Some ''keyword'') (Some (category_value c)) None)
      else keyword_category_loop e cs)"

fun custom_rules_loop :: "BlockRule list \<Rightarrow> string \<Rightarrow> BlockDecision option" where
  "custom_rules_loop [] domain = None"
| "custom_rules_loop (rule # rest) domain =
     (if \<not> br_enabled rule then custom_rules_loop rest domain
      else if br_rule_type rule = ''domain'' \<and> domain = lower (br_value rule)
      then Some (block_decision
                   (if br_reason rule \<noteq> [] then br_reason rule
                    else ''Custom rule: '' @ br_value rule)
                   (Some (br_id rule)) (Some ''custom'') None None)
      else custom_rules_loop rest domain)"

text \<open>
  \<open>BlockingEngine.check\<close>. The parameters in front are the environment: the regular
  expression engine, the category table, and the clock and date parser of the
  schedules. \<open>check\<close> has no handler, so an exception of the schedule step is its
  outcome.
\<close>

definition check ::
  "re_lib \<Rightarrow> (BlockCategory \<times> CategoryDefinition) list \<Rightarrow> py_env \<Rightarrow> BlockingEngine
     \<Rightarrow> string \<Rightarrow> string \<Rightarrow> string \<Rightarrow> bool \<Rightarrow> py_error + BlockDecision" where
  "check R defs env e domain0 url0 content check_schedule =
     (let domain = strip (lower domain0);
          url = strip (lower url0)
      in if is_whitelisted e domain then Inr (allow_decision ''Domain is whitelisted'')
         else if check_domain_block e domain
           then Inr (block_decision (''Domain blocked: '' @ domain) None (Some ''domain'')
                       None None)
         else
           let matched_pattern = check_url_patterns R e url
           in if truthy matched_pattern
              then Inr (block_decision (''URL pattern matched: '' @ the matched_pattern) None
                          (Some ''url_pattern'') None None)
              else
                let categories = check_domain_category defs domain
                in case category_loop e categories of
                     Some d \<Rightarrow> Inr d
                   | None \<Rightarrow>
                      (case (if check_schedule then schedule_step env e domain categories
                             else Inr None) of
                         Inl err \<Rightarrow> Inl err
                       | Inr (Some d) \<Rightarrow> Inr d
                       | Inr None \<Rightarrow>
                          (case keyword_category_loop e (check_url_keywords defs url content) of
                             Some d \<Rightarrow> Inr d
                           | None \<Rightarrow>
                              let matched_keyword = check_keywords e url content
                              in if truthy matched_keyword
                                 then Inr (block_decision
                                             (''Keyword blocked: '' @ the matched_keyword) None
                                             (Some ''keyword'') None None)
                                 else
                                   (case custom_rules_loop (dict_values (custom_rules e)) domain of
                                      Some d \<Rightarrow> Inr d
                                    | None \<Rightarrow> Inr (allow_decision ''Allowed'')))))"

section \<open>Keyword alerts (\<open>alerts/keywords.py\<close>)\<close>

datatype MatchType = EXACT | CONTAINS | REGEX | FUZZY

datatype AlertSeverity = LOW | MEDIUM | HIGH | CRITICAL

datatype AlertCategory =
  AC_SELF_HARM | AC_VIOLENCE | AC_BULLYING | AC_DRUGS | AC_SEXUAL | AC_PREDATOR
  | AC_PERSONAL_INFO | AC_PROFANITY | AC_CUSTOM

record Keyword =
  kw_id :: string
  word :: string
  match_type :: MatchType
  kw_category :: AlertCategory
  severity :: AlertSeverity
  kw_enabled :: bool
  case_sensitive :: bool
  context_words :: "string list"
  exclude_words :: "string list"
  description :: string

text \<open>
  \<open>__post_init__\<close> compiles a pattern for the REGEX and EXACT kinds; the compiled
  pattern is represented by its source text and its ignore-case flag. The word boundary
  \<open>\b\<close> is a backslash (code 0x5C) followed by \<open>b\<close>.
\<close>

definition word_boundary :: string where
  "word_boundary = [CHR 0x5C, CHR ''b'']"

definition compiled_pattern :: "re_lib \<Rightarrow> Keyword \<Rightarrow> (string \<times> bool) option" where
  "compiled_pattern R k =
     (if match_type k = REGEX then Some (word k, \<not> case_sensitive k)
      else if match_type k = EXACT
        then Some (word_boundary @ re_escape R (word k) @ word_boundary, \<not> case_sensitive k)
      else None)"

definition leetspeak_map :: "(char \<times> string) list" where
  "leetspeak_map =
     [(CHR ''a'', ''[a@4]''), (CHR ''e'', ''[e3]''), (CHR ''i'', ''[i1!]''),
      (CHR ''o'', ''[o0]''), (CHR ''s'', ''[s$5]''), (CHR ''t'', ''[t7+]''),
      (CHR ''l'', ''[l1]''), (CHR ''b'', ''[b8]'')]"

definition fuzzy_match :: "re_lib \<Rightarrow> Keyword \<Rightarrow> string \<Rightarrow> string option" where
  "fuzzy_match R k text =
     (let pattern_parts =
            map (\<lambda>char. case map_of leetspeak_map char of
                          Some cls \<Rightarrow> cls | None \<Rightarrow> re_escape R [char])
                (lower (word k));
          pattern = concat pattern_parts
      in re_search R pattern True text)"

text \<open>
  \<open>Keyword.matches\<close>. A regular-expression match object is truthy even when the matched
  text is empty; the result of \<open>_fuzzy_match\<close> is a string and is tested as such.
\<close>

definition matches :: "re_lib \<Rightarrow> Keyword \<Rightarrow> string \<Rightarrow> bool \<times> string option" where
  "matches R k text =
     (if \<not> kw_enabled k then (False, None)
      else if \<exists>exclude \<in> set (exclude_words k). py_in (lower exclude) (lower text)
        then (False, None)
      else if match_type k = EXACT \<or> match_type k = REGEX then
        (case compiled_pattern R k of
           Some (pat, icase) \<Rightarrow>
             (case re_search R pat icase text of
                Some m \<Rightarrow> (True, Some m) | None \<Rightarrow> (False, None))
         | None \<Rightarrow> (False, None))
      else if match_type k = CONTAINS then
        (let search_text = (if case_sensitive k then text else lower text);
             search_word = (if case_sensitive k then word k else lower (word k))
         in if py_in search_word search_text then (True, Some (word k)) else (False, None))
      else
        (let matched = fuzzy_match R k text
         in if truthy matched then (True, matched) else (False, None)))"

text \<open>
  \<open>Keyword.get_severity_with_context\<close>: the loop over the context words returns at the
  first word found when the base severity is below CRITICAL, and runs to its end
  otherwise.
\<close>

fun context_loop :: "AlertSeverity \<Rightarrow> string list \<Rightarrow> string \<Rightarrow> AlertSeverity" where
  "context_loop sev [] text_lower = sev"
| "context_loop sev (context_word # rest) text_lower =
     (if py_in (lower context_word) text_lower then
        (if sev = LOW then MEDIUM
         else if sev = MEDIUM then HIGH
         else if sev = HIGH then CRITICAL
         else context_loop sev rest text_lower)
      else context_loop sev rest text_lower)"

definition get_severity_with_context :: "Keyword \<Rightarrow> string \<Rightarrow> AlertSeverity" where
  "get_severity_with_context k text =
     (if context_words k = [] then severity k
      else context_loop (severity k) (context_words k) (lower text))"

record KeywordMatch =
  km_keyword :: Keyword
  matched_text :: string
  km_context :: string
  location :: string
  km_severity :: AlertSeverity

text \<open>\<open>s.find(sub)\<close>: the least index at which \<open>sub\<close> starts, if any.\<close>

fun str_find :: "string \<Rightarrow> string \<Rightarrow> nat option" where
  "str_find [] sub = (if sub = [] then Some 0 else None)"
| "str_find (c # cs) sub =
     (if startswith (c # cs) sub then Some 0
      else map_option Suc (str_find cs sub))"

text \<open>
  \<open>KeywordMatcher._extract_context\<close>; \<open>max(0, idx - context_chars)\<close> is the truncated
  difference of natural numbers.
\<close>

definition extract_context :: "string \<Rightarrow> string \<Rightarrow> nat \<Rightarrow> string" where
  "extract_context text matched context_chars =
     (case str_find (lower text) (lower matched) of
        None \<Rightarrow> []
      | Some idx \<Rightarrow>
          let start = idx - context_chars;
              end' = min (length text) (idx + length matched + context_chars);
              context = drop start (take end' text);
              context = (if 0 < start then ''...'' @ context else context);
              context = (if end' < length text then context @ ''...'' else context)
          in context)"

text \<open>\<open>KeywordMatcher.match\<close> over the keyword dictionary, in insertion order.\<close>

fun match_loop :: "re_lib \<Rightarrow> Keyword list \<Rightarrow> string \<Rightarrow> string \<Rightarrow> nat \<Rightarrow> KeywordMatch list" where
  "match_loop R [] text loc context_chars = []"
| "match_loop R (k # ks) text loc context_chars =
     (case matches R k text of
        (matched, mt) \<Rightarrow>
          if matched \<and> truthy mt then
            (let context = extract_context text (the mt) context_chars;
                 sev = get_severity_with_context k context
             in \<lparr>km_keyword = k, matched_text = the mt, km_context = context,
                  location = loc, km_severity = sev\<rparr>
                # match_loop R ks text loc context_chars)
          else match_loop R ks text loc context_chars)"

definition match_keywords ::
  "re_lib \<Rightarrow> (string \<times> Keyword) list \<Rightarrow> string \<Rightarrow> string \<Rightarrow> nat \<Rightarrow> KeywordMatch list" where
  "match_keywords R keywords text loc context_chars =
     match_loop R (dict_values keywords) text loc context_chars"

section \<open>The DNS blocker (\<open>dns/dns_blocker.py\<close>)\<close>

text \<open>
  The layers of a captured packet that the blocker reads or builds, with the field widths
  of the wire format. Building \<open>DNS(...)\<close> with some fields given leaves the others at
  the defaults of the packet library, which are those of a plain recursive query: every
  field zero except \<open>rd = 1\<close>, no records.
\<close>

record IP =
  ip_src :: string
  ip_dst :: string

record UDP =
  sport :: "16 word"
  dport :: "16 word"

record DNSQR =
  qname :: string
  qtype :: "16 word"
  qclass :: "16 word"

record DNSRR =
  rrname :: string
  rr_type :: "16 word"
  ttl :: "32 word"
  rdata :: string

record DNS =
  dns_id :: "16 word"
  qr :: "1 word"
  opcode :: "4 word"
  aa :: "1 word"
  tc :: "1 word"
  rd :: "1 word"
  ra :: "1 word"
  z :: "1 word"
  ad :: "1 word"
  cd :: "1 word"
  rcode :: "4 word"
  qd :: "DNSQR list"
  an :: "DNSRR list"
  ns :: "DNSRR list"
  ar :: "DNSRR list"

definition DNS_default :: DNS where
  "DNS_default =
     \<lparr>dns_id = 0, qr = 0, opcode = 0, aa = 0, tc = 0, rd = 1, ra = 0, z = 0, ad = 0, cd = 0,
      rcode = 0, qd = [], an = [], ns = [], ar = []\<rparr>"

record packet =
  pkt_ip :: "IP option"
  pkt_udp :: "UDP option"
  pkt_dns :: "DNS option"

record BlockedQuery =
  bq_timestamp :: string
  device_ip :: string
  bq_domain :: string
  bq_action :: string

record DNSBlocker =
  interface :: string
  dns_blocked_domains :: "string set"
  redirect_ip :: string
  block_mode :: string
  blocked_count :: nat
  blocked_log :: "BlockedQuery list"

text \<open>What \<open>_process_packet\<close> does to the outside: lines printed and packets sent.\<close>

datatype dns_effect =
  PrintBlocked BlockedQuery
  | PrintError
  | Send packet string

definition is_blocked :: "DNSBlocker \<Rightarrow> string \<Rightarrow> bool" where
  "is_blocked b domain0 =
     (let domain = rstrip_dot (lower domain0)
      in if domain \<in> dns_blocked_domains b then True
         else \<exists>blocked \<in> dns_blocked_domains b.
                endswith domain (CHR ''.'' # blocked)
                \<or> (startswith blocked ''*.'' \<and> endswith domain (drop 1 blocked)))"

definition add_domain :: "DNSBlocker \<Rightarrow> string \<Rightarrow> DNSBlocker" where
  "add_domain b domain = b\<lparr>dns_blocked_domains := insert (lower domain) (dns_blocked_domains b)\<rparr>"

text \<open>
  The two response builders return \<open>None\<close> when a layer they index is missing (the
  \<open>except\<close> branch).
\<close>

definition create_nxdomain_response :: "DNSBlocker \<Rightarrow> packet \<Rightarrow> packet option" where
  "create_nxdomain_response b p =
     (case (pkt_ip p, pkt_udp p, pkt_dns p) of
        (Some i, Some u, Some d) \<Rightarrow>
          Some \<lparr>pkt_ip = Some \<lparr>ip_src = ip_dst i, ip_dst = ip_src i\<rparr>,
                pkt_udp = Some \<lparr>sport = 53, dport = sport u\<rparr>,
                pkt_dns = Some (DNS_default\<lparr>dns_id := dns_id d, qr := 1, aa := 1, rcode := 3,
                                  qd := qd d\<rparr>)\<rparr>
      | _ \<Rightarrow> None)"

definition create_redirect_response :: "DNSBlocker \<Rightarrow> packet \<Rightarrow> packet option" where
  "create_redirect_response b p =
     (case (pkt_ip p, pkt_udp p, pkt_dns p) of
        (Some i, Some u, Some d) \<Rightarrow>
          (case qd d of
             [] \<Rightarrow> None
           | q # _ \<Rightarrow>
               Some \<lparr>pkt_ip = Some \<lparr>ip_src = ip_dst i, ip_dst = ip_src i\<rparr>,
                     pkt_udp = Some \<lparr>sport = 53, dport = sport u\<rparr>,
                     pkt_dns = Some (DNS_default\<lparr>dns_id := dns_id d, qr := 1, aa := 1,
                                  rcode := 0, qd := qd d,
                                  an := [\<lparr>rrname = qname q, rr_type = 1, ttl = 300,
                                          rdata = redirect_ip b\<rparr>]\<rparr>)\<rparr>)
      | _ \<Rightarrow> None)"

text \<open>
  \<open>_process_packet\<close>. A question carries its name as bytes; \<open>decode\<close> is
  \<open>bytes.decode()\<close>, which raises \<open>UnicodeDecodeError\<close> on bytes that are not valid
  UTF-8, and \<open>stamp\<close> is the time stamp of the log record. Every exception ends in the
  handler, which prints the error: that of the decoding before anything is counted, and
  that of \<open>packet[IP]\<close> on a packet without an IPv4 layer after the counter was
  incremented.
\<close>

definition process_packet ::
  "(string \<Rightarrow> py_error + string) \<Rightarrow> string \<Rightarrow> DNSBlocker \<Rightarrow> packet
     \<Rightarrow> DNSBlocker \<times> dns_effect list" where
  "process_packet decode stamp b p =
     (case pkt_dns p of
        None \<Rightarrow> (b, [])
      | Some d \<Rightarrow>
          (if qr d \<noteq> 0 \<or> qd d = [] then (b, [])
           else
             (case decode (qname (hd (qd d))) of
                Inl err \<Rightarrow> (b, [PrintError])
              | Inr name \<Rightarrow>
                  let domain = rstrip_dot name
                  in if \<not> is_blocked b domain then (b, [])
                     else
                       let b1 = b\<lparr>blocked_count := blocked_count b + 1\<rparr>
                       in (case pkt_ip p of
                             None \<Rightarrow> (b1, [PrintError])
                           | Some i \<Rightarrow>
                               let blocked_query =
                                     \<lparr>bq_timestamp = stamp, device_ip = ip_src i,
                                      bq_domain = domain, bq_action = block_mode b\<rparr>;
                                   b2 = b1\<lparr>blocked_log := blocked_log b1 @ [blocked_query]\<rparr>;
                                   response =
                                     (if block_mode b = ''nxdomain''
                                        then create_nxdomain_response b p
                                      else if block_mode b = ''redirect''
                                        then create_redirect_response b p
                                      else None);
                                   sent = (case response of
                                             Some r \<Rightarrow> [Send r (interface b)]
                                           | None \<Rightarrow> [])
                               in (b2, PrintBlocked blocked_query # sent)))))"

section \<open>The ARP gateway (\<open>arp/arp_gateway.py\<close>)\<close>

record TargetDevice =
  t_ip :: string
  t_mac :: string
  t_hostname :: "string option"
  t_last_seen :: "string option"
  t_active :: bool

text \<open>An Ethernet frame carrying an ARP message; \<open>None\<close> is a field built from \<open>None\<close>.\<close>

record ARPFrame =
  ether_dst :: "string option"
  arp_op :: nat
  pdst :: "string option"
  hwdst :: "string option"
  psrc :: "string option"
  hwsrc :: "string option"

datatype arp_event = TargetRemoved string | Stopped "string list"

text \<open>
  The effects of the gateway. \<open>Sendp frame count inter\<close> is one call
  \<open>sendp(frame, count=count, inter=inter)\<close> of the packet library: the frame is written
  \<open>count\<close> times, waiting \<open>inter\<close> milliseconds after each one. The library's default for
  \<open>inter\<close>, used when the caller passes none, is 0.
\<close>

datatype arp_effect =
  Sendp ARPFrame nat nat
  | Callback arp_event
  | JoinSpoofThread
  | DisableIpForwarding

definition sendp_default_inter :: nat where
  "sendp_default_inter = 0"

record ARPGateway =
  gw_interface :: string
  gateway_ip :: "string option"
  gateway_mac :: "string option"
  our_mac :: string
  targets :: "(string \<times> TargetDevice) list"
  running :: bool
  has_spoof_thread :: bool

text \<open>
  \<open>_restore_target\<close>. Sending can raise; \<open>fails\<close> tells for which frames it does. The
  result is the effects up to the first failure and whether the call returned normally.
\<close>

definition restore_target ::
  "(ARPFrame \<Rightarrow> bool) \<Rightarrow> ARPGateway \<Rightarrow> string \<Rightarrow> string \<Rightarrow> arp_effect list \<times> bool" where
  "restore_target fails g target_ip target_mac =
     (let packet1 = \<lparr>ether_dst = Some target_mac, arp_op = 2, pdst = Some target_ip,
                      hwdst = Some target_mac, psrc = gateway_ip g, hwsrc = gateway_mac g\<rparr>;
          packet2 = \<lparr>ether_dst = gateway_mac g, arp_op = 2, pdst = gateway_ip g,
                      hwdst = gateway_mac g, psrc = Some target_ip, hwsrc = Some target_mac\<rparr>
      in if fails packet1 then ([], False)
         else if fails packet2 then ([Sendp packet1 3 sendp_default_inter], False)
         else ([Sendp packet1 3 sendp_default_inter, Sendp packet2 3 sendp_default_inter], True))"

text \<open>
  \<open>remove_target\<close>: an exception of the restore leaves the dictionary as it was and no
  event is reported.
\<close>

definition remove_target ::
  "(ARPFrame \<Rightarrow> bool) \<Rightarrow> ARPGateway \<Rightarrow> string \<Rightarrow> ARPGateway \<times> arp_effect list \<times> bool" where
  "remove_target fails g ip =
     (case map_of (targets g) ip of
        None \<Rightarrow> (g, [], True)
      | Some target \<Rightarrow>
          (case restore_target fails g ip (t_mac target) of
             (effs, ok) \<Rightarrow>
               if ok
               then (g\<lparr>targets := filter (\<lambda>(k, v). k \<noteq> ip) (targets g)\<rparr>,
                     effs @ [Callback (TargetRemoved ip)], True)
               else (g, effs, False)))"

text \<open>The loop of \<open>stop\<close>: exceptions of a restore are swallowed.\<close>

fun restore_all ::
  "(ARPFrame \<Rightarrow> bool) \<Rightarrow> ARPGateway \<Rightarrow> (string \<times> TargetDevice) list \<Rightarrow> arp_effect list" where
  "restore_all fails g [] = []"
| "restore_all fails g ((ip, target) # rest) =
     fst (restore_target fails g ip (t_mac target)) @ restore_all fails g rest"

definition stop :: "(ARPFrame \<Rightarrow> bool) \<Rightarrow> ARPGateway \<Rightarrow> ARPGateway \<times> arp_effect list" where
  "stop fails g =
     (let g1 = g\<lparr>running := False\<rparr>
      in (g1,
          (if has_spoof_thread g1 then [JoinSpoofThread] else [])
          @ restore_all fails g1 (targets g1)
          @ [DisableIpForwarding, Callback (Stopped (map fst (targets g1)))]))"

text \<open>
  The frames that a list of effects puts on the wire, each with the pause the sender
  makes after it, in order.
\<close>

fun frames_of :: "arp_effect list \<Rightarrow> (ARPFrame \<times> nat) list" where
  "frames_of [] = []"
| "frames_of (Sendp f n gap # es) = replicate n (f, gap) @ frames_of es"
| "frames_of (_ # es) = frames_of es"

section \<open>The traffic interceptor (\<open>https/transparent_proxy.py\<close>)\<close>

datatype TrafficCategory =
  TC_SOCIAL_MEDIA | TC_STREAMING | TC_GAMING | TC_SHOPPING | TC_SEARCH | TC_EMAIL | TC_NEWS
  | TC_ADULT | TC_MESSAGING | TC_EDUCATION | TC_PRODUCTIVITY | TC_FINANCE | TC_ADVERTISING
  | TC_ANALYTICS | TC_API | TC_OTHER

fun traffic_category_value :: "TrafficCategory \<Rightarrow> string" where
  "traffic_category_value TC_SOCIAL_MEDIA = ''social_media''"
| "traffic_category_value TC_STREAMING = ''streaming''"
| "traffic_category_value TC_GAMING = ''gaming''"
| "traffic_category_value TC_SHOPPING = ''shopping''"
| "traffic_category_value TC_SEARCH = ''search''"
| "traffic_category_value TC_EMAIL = ''email''"
| "traffic_category_value TC_NEWS = ''news''"
| "traffic_category_value TC_ADULT = ''adult''"
| "traffic_category_value TC_MESSAGING = ''messaging''"
| "traffic_category_value TC_EDUCATION = ''education''"
| "traffic_category_value TC_PRODUCTIVITY = ''productivity''"
| "traffic_category_value TC_FINANCE = ''finance''"
| "traffic_category_value TC_ADVERTISING = ''advertising''"
| "traffic_category_value TC_ANALYTICS = ''analytics''"
| "traffic_category_value TC_API = ''api''"
| "traffic_category_value TC_OTHER = ''other''"

text \<open>
  The flow object of the proxy library, as far as the interceptor touches it: the
  request's host and URL, the response slot (a hook answers a request locally by
  assigning a response to it) and the mark left by \<open>flow.kill()\<close>.
\<close>

record HTTPResponse =
  status_code :: nat
  body :: string

record HTTPFlow =
  flow_id :: string
  request_host :: string
  request_pretty_url :: string
  response :: "HTTPResponse option"
  killed :: bool

text \<open>The configuration fields that the request hook reads.\<close>

record ProxyConfig =
  block_list :: "string set"
  category_blocks :: "TrafficCategory set"

record FlowEvent =
  event_type :: string
  fe_flow_id :: string
  fe_timestamp :: string
  fe_data :: "(string \<times> string) list"

record TrafficInterceptor =
  config :: ProxyConfig
  active_flows :: "(string \<times> (nat \<times> string \<times> string)) list"

text \<open>
  The traffic parser is a collaborator: \<open>env_categorize\<close> is its \<open>_categorize_domain\<close> and
  \<open>env_parse\<close> its \<open>parse_mitmproxy_flow\<close> followed by \<open>to_dict\<close>, with \<open>Inl\<close> for a raised
  exception. \<open>env_clock\<close> is \<open>time.time()\<close> and \<open>env_stamp\<close> the UTC time stamp of an event.
\<close>

record proxy_env =
  env_categorize :: "string \<Rightarrow> TrafficCategory"
  env_parse :: "HTTPFlow \<Rightarrow> string + (string \<times> string) list"
  env_clock :: nat
  env_stamp :: string

definition proxy_should_block :: "TrafficInterceptor \<Rightarrow> HTTPFlow \<Rightarrow> bool" where
  "proxy_should_block ti flow =
     (let host = lower (request_host flow);
          url = lower (request_pretty_url flow)
      in \<exists>blocked \<in> block_list (config ti). py_in (lower blocked) host \<or> py_in (lower blocked) url)"

definition block_flow :: "proxy_env \<Rightarrow> HTTPFlow \<Rightarrow> string \<Rightarrow> HTTPFlow \<times> FlowEvent list" where
  "block_flow env flow why =
     (flow\<lparr>killed := True\<rparr>,
      [\<lparr>event_type = ''blocked'', fe_flow_id = flow_id flow, fe_timestamp = env_stamp env,
        fe_data = [(''reason'', why), (''host'', request_host flow),
                   (''url'', request_pretty_url flow)]\<rparr>])"

text \<open>\<open>TrafficInterceptor.request\<close>: the new interceptor state, the flow and the events.\<close>

definition request ::
  "proxy_env \<Rightarrow> TrafficInterceptor \<Rightarrow> HTTPFlow \<Rightarrow> TrafficInterceptor \<times> HTTPFlow \<times> FlowEvent list" where
  "request env ti flow =
     (let host = request_host flow;
          url = request_pretty_url flow
      in if proxy_should_block ti flow
         then (case block_flow env flow ''Domain blocked by policy'' of (f, evs) \<Rightarrow> (ti, f, evs))
         else
           let cat = env_categorize env host
           in if cat \<in> category_blocks (config ti)
              then (case block_flow env flow (''Category blocked: '' @ traffic_category_value cat)
                    of (f, evs) \<Rightarrow> (ti, f, evs))
              else
                let ti' = ti\<lparr>active_flows :=
                               dict_set (active_flows ti) (flow_id flow) (env_clock env, host, url)\<rparr>
                in (ti', flow,
                    [case env_parse env flow of
                       Inr data \<Rightarrow>
                         \<lparr>event_type = ''request'', fe_flow_id = flow_id flow,
                          fe_timestamp = env_stamp env, fe_data = data\<rparr>
                     | Inl err \<Rightarrow>
                         \<lparr>event_type = ''error'', fe_flow_id = flow_id flow,
                          fe_timestamp = env_stamp env,
                          fe_data = [(''error'', err), (''phase'', ''request'')]\<rparr>]))"

section \<open>The device table (\<open>database/db_manager.py\<close>)\<close>

datatype DeviceType =
  DT_UNKNOWN | DT_PHONE | DT_TABLET | DT_COMPUTER | DT_SMART_TV | DT_GAMING_CONSOLE | DT_IOT
  | DT_ROUTER

record Device =
  d_id :: string
  mac_address :: string
  ip_address :: string
  hostname :: "string option"
  device_type :: DeviceType
  manufacturer :: "string option"
  nickname :: "string option"
  is_monitored :: bool
  has_certificate :: bool
  first_seen :: "string option"
  last_seen :: "string option"
  total_requests :: int
  total_bytes :: int
  metadata :: string

text \<open>
  The \<open>devices\<close> table is the list of its rows, oldest first. Its schema declares
  \<open>id TEXT PRIMARY KEY\<close> and \<open>mac_address TEXT UNIQUE NOT NULL\<close>; text columns compare
  byte by byte. \<open>child_refs\<close> are the device ids that rows of \<open>dns_queries\<close> and
  \<open>traffic\<close> refer to: both declare \<open>FOREIGN KEY (device_id) REFERENCES devices(id)\<close>,
  and every connection switches foreign keys on.
\<close>

record DeviceStore =
  devices :: "Device list"
  child_refs :: "string set"

datatype db_error = IntegrityError

text \<open>
  \<open>add_device\<close> is one \<open>INSERT OR REPLACE\<close>: the rows that collide with the new row on the
  primary key or on the unique column are deleted, then the new row is inserted. A
  deleted row whose id is still referred to, and which the new row does not bring back,
  violates the foreign key; the statement is then undone and the error raised.
\<close>

definition add_device :: "DeviceStore \<Rightarrow> Device \<Rightarrow> db_error + DeviceStore" where
  "add_device db device =
     (let collides = (\<lambda>row. d_id row = d_id device \<or> mac_address row = mac_address device);
          deleted = filter collides (devices db);
          kept = filter (\<lambda>row. \<not> collides row) (devices db)
      in if \<exists>row \<in> set deleted. d_id row \<noteq> d_id device \<and> d_id row \<in> child_refs db
         then Inl IntegrityError
         else Inr (db\<lparr>devices := kept @ [device]\<rparr>))"

text \<open>\<open>update_device_stats\<close>: an \<open>UPDATE ... WHERE id = ?\<close>.\<close>

definition update_device_stats :: "string \<Rightarrow> DeviceStore \<Rightarrow> string \<Rightarrow> int \<Rightarrow> int \<Rightarrow> DeviceStore" where
  "update_device_stats now db device_id requests bytes_transferred =
     db\<lparr>devices :=
          map (\<lambda>row. if d_id row = device_id
                      then row\<lparr>total_requests := total_requests row + requests,
                               total_bytes := total_bytes row + bytes_transferred,
                               last_seen := Some now\<rparr>
                      else row)
              (devices db)\<rparr>"

text \<open>The number of rows whose address is \<open>a\<close>.\<close>

definition records_with_mac :: "DeviceStore \<Rightarrow> string \<Rightarrow> nat" where
  "records_with_mac db a = length (filter (\<lambda>row. mac_address row = a) (devices db))"

section \<open>Specification-side definitions and example values\<close>

text \<open>The unfolding rules that evaluate the string functions on literals.\<close>

lemmas str_simps = strip_def lower_def lower_char_def upper_letters_def lower_letters_def
  is_space_def rstrip_dot_def endswith_def

text \<open>An engine with an empty policy and no schedules, and an idle DNS blocker.\<close>

definition engine0 :: BlockingEngine where
  "engine0 =
     \<lparr>blocked_domains = {}, blocked_categories = {}, blocked_keywords = [],
      url_patterns = [], custom_rules = [], whitelisted_domains = {},
      schedule_manager = \<lparr>schedules = []\<rparr>, config_file = None\<rparr>"

definition blocker0 :: DNSBlocker where
  "blocker0 =
     \<lparr>interface = ''eth0'', dns_blocked_domains = {}, redirect_ip = ''0.0.0.0'',
      block_mode = ''nxdomain'', blocked_count = 0, blocked_log = []\<rparr>"

text \<open>
  The matching of a query name \<open>q\<close> against one blocklist entry \<open>e\<close> in the words of the
  specification: equal without regard to case, or a strict subdomain, or \<open>e\<close> is
  \<open>*.suffix\<close> and \<open>q\<close> ends with \<open>suffix\<close>.
\<close>

definition spec_entry_match :: "string \<Rightarrow> string \<Rightarrow> bool" where
  "spec_entry_match q e =
     (lower q = lower e \<or> endswith q (CHR ''.'' # e)
      \<or> (startswith e ''*.'' \<and> endswith q (drop 2 e)))"

text \<open>
  The matching that the blocker implements, on the normalised name \<open>d\<close>: for a wildcard
  entry \<open>*.suffix\<close> the name has to end with \<open>.suffix\<close>, the dot included.
\<close>

definition entry_matches :: "string \<Rightarrow> string \<Rightarrow> bool" where
  "entry_matches d e =
     (d = e \<or> endswith d (CHR ''.'' # e)
      \<or> (startswith e ''*.'' \<and> endswith d (CHR ''.'' # drop 2 e)))"

text \<open>A regular-expression engine in which nothing matches.\<close>

definition no_re :: re_lib where
  "no_re = \<lparr>re_search = (\<lambda>p i t. None), re_escape = (\<lambda>s. s)\<rparr>"

text \<open>
  An environment for the schedules: the clock reads Monday, 1 January 2024, 17:00, and
  the date parser knows the two date texts that the examples use, for which it returns
  what \<open>strptime\<close> returns; any other text is refused.
\<close>

definition monday_5pm :: pydatetime where
  "monday_5pm =
     \<lparr>dt_date = (2024, 1, 1), dt_weekday = MONDAY,
      dt_time = \<lparr>hour = 17, minute = 0, second = 0, microsecond = 0\<rparr>\<rparr>"

definition january_strptime :: "string \<Rightarrow> py_error + pydate" where
  "january_strptime t =
     (if t = ''2024-01-01'' then Inr (2024, 1, 1)
      else if t = ''2024-01-31'' then Inr (2024, 1, 31)
      else Inl ValueError)"

definition monday_env :: py_env where
  "monday_env = \<lparr>py_now = monday_5pm, py_strptime = january_strptime\<rparr>"

subsection \<open>The rules of \<open>check\<close>\<close>

text \<open>
  The eight rule classes of the specification, as conditions on the normalised domain
  and URL: a rule of the class matches.
\<close>

definition rule1 :: "BlockingEngine \<Rightarrow> string \<Rightarrow> bool" where
  "rule1 e domain = (\<exists>w \<in> whitelisted_domains e. domain_matches domain w)"

definition rule2 :: "BlockingEngine \<Rightarrow> string \<Rightarrow> bool" where
  "rule2 e domain = (\<exists>b \<in> blocked_domains e. domain_matches domain b)"

definition rule3 :: "re_lib \<Rightarrow> BlockingEngine \<Rightarrow> string \<Rightarrow> bool" where
  "rule3 R e url = (\<exists>p \<in> set (url_patterns e). re_search R p True url \<noteq> None)"

definition rule4 ::
  "(BlockCategory \<times> CategoryDefinition) list \<Rightarrow> BlockingEngine \<Rightarrow> string \<Rightarrow> bool" where
  "rule4 defs e domain =
     (\<exists>c \<in> set (check_domain_category defs domain). c \<in> blocked_categories e)"

text \<open>The manager reports a block (and does not raise).\<close>

definition manager_blocks :: "py_env \<Rightarrow> ScheduleManager \<Rightarrow> string \<Rightarrow> string \<Rightarrow> bool" where
  "manager_blocks env m domain cat =
     (case Manager_should_block env m domain cat of
        Inr (blocked, sid) \<Rightarrow> blocked | Inl err \<Rightarrow> False)"

definition rule5 ::
  "(BlockCategory \<times> CategoryDefinition) list \<Rightarrow> py_env \<Rightarrow> BlockingEngine \<Rightarrow> string
     \<Rightarrow> bool" where
  "rule5 defs env e domain =
     ((\<exists>c \<in> set (check_domain_category defs domain).
          manager_blocks env (schedule_manager e) domain (category_value c))
      \<or> manager_blocks env (schedule_manager e) domain [])"

definition rule6 ::
  "(BlockCategory \<times> CategoryDefinition) list \<Rightarrow> BlockingEngine \<Rightarrow> string \<Rightarrow> string
     \<Rightarrow> bool" where
  "rule6 defs e url content =
     (\<exists>c \<in> set (check_url_keywords defs url content). c \<in> blocked_categories e)"

definition rule7 :: "BlockingEngine \<Rightarrow> string \<Rightarrow> string \<Rightarrow> bool" where
  "rule7 e url content =
     (\<exists>k \<in> set (blocked_keywords e). py_in (lower k) (lower (url @ '' '' @ content)))"

definition rule8 :: "BlockingEngine \<Rightarrow> string \<Rightarrow> bool" where
  "rule8 e domain =
     (\<exists>r \<in> set (dict_values (custom_rules e)).
        br_enabled r \<and> br_rule_type r = ''domain'' \<and> domain = lower (br_value r))"

text \<open>An engine whose only policy is two blocked keywords, the first of them empty.\<close>

definition keyword_engine :: BlockingEngine where
  "keyword_engine = engine0\<lparr>blocked_keywords := ['''', ''forbidden'']\<rparr>"

subsection \<open>Schedules\<close>

text \<open>
  A well-formed schedule: the components of every time range are those of a time of
  day, and a date text that is present parses. On such a schedule neither
  \<open>time(h, m)\<close> nor \<open>strptime\<close> raises.
\<close>

definition valid_range :: "TimeRange \<Rightarrow> bool" where
  "valid_range r =
     (0 \<le> start_hour r \<and> start_hour r < 24 \<and> 0 \<le> start_minute r \<and> start_minute r < 60
      \<and> 0 \<le> end_hour r \<and> end_hour r < 24 \<and> 0 \<le> end_minute r \<and> end_minute r < 60)"

definition date_parses :: "py_env \<Rightarrow> string option \<Rightarrow> bool" where
  "date_parses env date_text =
     (case date_text of
        None \<Rightarrow> True
      | Some t \<Rightarrow> t = [] \<or> (case py_strptime env t of Inr d \<Rightarrow> True | Inl err \<Rightarrow> False))"

definition all_days :: "DayOfWeek list" where
  "all_days = [MONDAY, TUESDAY, WEDNESDAY, THURSDAY, FRIDAY, SATURDAY, SUNDAY]"

definition well_formed :: "py_env \<Rightarrow> Schedule \<Rightarrow> bool" where
  "well_formed env s =
     (date_parses env (start_date s) \<and> date_parses env (end_date s)
      \<and> (\<forall>day \<in> set all_days.
            \<forall>r \<in> set (case time_ranges s day of Some rs \<Rightarrow> rs | None \<Rightarrow> []). valid_range r))"

definition schedules_well_formed :: "py_env \<Rightarrow> ScheduleManager \<Rightarrow> bool" where
  "schedules_well_formed env m = (\<forall>s \<in> set (dict_values (schedules m)). well_formed env s)"

text \<open>
  A schedule blocks a request: its \<open>should_block\<close> returns \<open>True\<close>. The schedules that
  block a request, in the order of the manager's dictionary.
\<close>

definition blocks :: "py_env \<Rightarrow> Schedule \<Rightarrow> string \<Rightarrow> string \<Rightarrow> bool" where
  "blocks env s domain cat = (Schedule_should_block env s domain cat = Inr True)"

definition blocking :: "py_env \<Rightarrow> ScheduleManager \<Rightarrow> string \<Rightarrow> string \<Rightarrow> Schedule list" where
  "blocking env m domain cat = filter (\<lambda>s. blocks env s domain cat) (dict_values (schedules m))"

text \<open>
  The manager's decision in the words of the specification: schedules by descending
  priority, those of equal priority by ascending id.
\<close>

definition spec_Manager_should_block ::
  "py_env \<Rightarrow> ScheduleManager \<Rightarrow> string \<Rightarrow> string \<Rightarrow> py_error + bool \<times> string option" where
  "spec_Manager_should_block env m domain cat =
     should_block_loop env
       (sort_key (\<lambda>s. (- priority s, s_id s)) (dict_values (schedules m))) domain cat"

definition always_schedule :: "string \<Rightarrow> Schedule" where
  "always_schedule i =
     \<lparr>s_id = i, s_name = i, schedule_type = ALWAYS_BLOCK, s_enabled = True,
      s_categories = {}, s_domains = {}, time_ranges = Map.empty, start_date = None,
      end_date = None, priority = 0, s_created_at = None, s_updated_at = None\<rparr>"

text \<open>A manager to which schedule \<open>b\<close> was added first and schedule \<open>a\<close> second.\<close>

definition manager_ba :: ScheduleManager where
  "manager_ba =
     add_schedule ''t2'' (add_schedule ''t1'' \<lparr>schedules = []\<rparr> (always_schedule ''b''))
       (always_schedule ''a'')"

text \<open>An untargeted schedule for Monday, 16:00 to 18:00, during January 2024.\<close>

definition curfew :: Schedule where
  "curfew =
     \<lparr>s_id = ''curfew'', s_name = ''Curfew'', schedule_type = TIME_RANGE, s_enabled = True,
      s_categories = {}, s_domains = {},
      time_ranges = [MONDAY \<mapsto> [\<lparr>start_hour = 16, start_minute = 0, end_hour = 18,
                                  end_minute = 0\<rparr>]],
      start_date = Some ''2024-01-01'', end_date = Some ''2024-01-31'', priority = 5,
      s_created_at = None, s_updated_at = None\<rparr>"

definition curfew_manager :: ScheduleManager where
  "curfew_manager = \<lparr>schedules = [(''a'', always_schedule ''a''), (''curfew'', curfew)]\<rparr>"

text \<open>
  A schedule of higher priority for Monday, 22:00 to 24:00, as \<open>Schedule.from_dict\<close>
  reads it from the times \<open>22:00\<close> and \<open>24:00\<close>, and a manager that holds it next to
  the curfew.
\<close>

definition late_schedule :: Schedule where
  "late_schedule =
     \<lparr>s_id = ''late'', s_name = ''Late'', schedule_type = TIME_RANGE, s_enabled = True,
      s_categories = {''gaming''}, s_domains = {},
      time_ranges = [MONDAY \<mapsto> [\<lparr>start_hour = 22, start_minute = 0, end_hour = 24,
                                  end_minute = 0\<rparr>]],
      start_date = None, end_date = None, priority = 10,
      s_created_at = None, s_updated_at = None\<rparr>"

definition late_manager :: ScheduleManager where
  "late_manager = \<lparr>schedules = [(''curfew'', curfew), (''late'', late_schedule)]\<rparr>"

subsection \<open>Keywords\<close>

text \<open>One level up, never past CRITICAL.\<close>

fun elevate :: "AlertSeverity \<Rightarrow> AlertSeverity" where
  "elevate LOW = MEDIUM"
| "elevate MEDIUM = HIGH"
| "elevate HIGH = CRITICAL"
| "elevate CRITICAL = CRITICAL"

definition suicide_keyword :: Keyword where
  "suicide_keyword =
     \<lparr>kw_id = ''sh_suicide'', word = ''suicide'', match_type = CONTAINS,
      kw_category = AC_SELF_HARM, severity = CRITICAL, kw_enabled = True,
      case_sensitive = False, context_words = [''how to'', ''method''],
      exclude_words = [''prevention'', ''hotline''], description = []\<rparr>"

subsection \<open>DNS replies\<close>

text \<open>The DNS layers of the packets that a list of effects sends.\<close>

fun sent_dns :: "dns_effect list \<Rightarrow> DNS list" where
  "sent_dns [] = []"
| "sent_dns (Send r iface # es) =
     (case pkt_dns r of Some d \<Rightarrow> d # sent_dns es | None \<Rightarrow> sent_dns es)"
| "sent_dns (_ # es) = sent_dns es"

fun sent_packets :: "dns_effect list \<Rightarrow> packet list" where
  "sent_packets [] = []"
| "sent_packets (Send r iface # es) = r # sent_packets es"
| "sent_packets (_ # es) = sent_packets es"

text \<open>
  A decoder for the examples: it accepts the byte strings below 0x80, on which UTF-8
  decoding is the identity, and refuses every other one.
\<close>

definition ascii_only_decode :: "string \<Rightarrow> py_error + string" where
  "ascii_only_decode bs =
     (if list_all (\<lambda>c. (of_char c :: nat) < 128) bs then Inr bs
      else Inl UnicodeDecodeError)"

text \<open>
  A blocker for \<open>ads.example\<close>; the query of the specification's first scenario (id
  0x1234, type A, from 192.168.1.23) and the same question sent with opcode 2.
\<close>

definition ads_blocker :: DNSBlocker where
  "ads_blocker = blocker0\<lparr>dns_blocked_domains := {''ads.example''}\<rparr>"

definition query0 :: packet where
  "query0 =
     \<lparr>pkt_ip = Some \<lparr>ip_src = ''192.168.1.23'', ip_dst = ''192.168.1.1''\<rparr>,
      pkt_udp = Some \<lparr>sport = 40000, dport = 53\<rparr>,
      pkt_dns = Some (DNS_default\<lparr>dns_id := 0x1234,
                  qd := [\<lparr>qname = ''ads.example.'', qtype = 1, qclass = 1\<rparr>]\<rparr>)\<rparr>"

definition status_query :: packet where
  "status_query =
     query0\<lparr>pkt_dns := Some (DNS_default\<lparr>dns_id := 0x1234, opcode := 2,
                  qd := [\<lparr>qname = ''ads.example.'', qtype = 1, qclass = 1\<rparr>]\<rparr>)\<rparr>"

subsection \<open>ARP restoration\<close>

text \<open>
  The two restorative frames for a target, given the gateway's address \<open>gip\<close> and
  hardware address \<open>gmac\<close>: an ARP reply (opcode 2) to the target that maps the
  gateway's address to the gateway's own hardware address, and one to the gateway that
  maps the target's address to the target's own hardware address.
\<close>

definition to_target_frame :: "string \<Rightarrow> string \<Rightarrow> string \<Rightarrow> string \<Rightarrow> ARPFrame" where
  "to_target_frame gip gmac target_ip target_mac =
     \<lparr>ether_dst = Some target_mac, arp_op = 2, pdst = Some target_ip,
      hwdst = Some target_mac, psrc = Some gip, hwsrc = Some gmac\<rparr>"

definition to_gateway_frame :: "string \<Rightarrow> string \<Rightarrow> string \<Rightarrow> string \<Rightarrow> ARPFrame" where
  "to_gateway_frame gip gmac target_ip target_mac =
     \<lparr>ether_dst = Some gmac, arp_op = 2, pdst = Some gip,
      hwdst = Some gmac, psrc = Some target_ip, hwsrc = Some target_mac\<rparr>"

text \<open>How often a frame is written, and: every frame but the last is followed by a
  pause of at least \<open>m\<close> milliseconds.\<close>

definition count_frame :: "ARPFrame \<Rightarrow> arp_effect list \<Rightarrow> nat" where
  "count_frame f effs = length (filter (\<lambda>x. fst x = f) (frames_of effs))"

fun paced :: "nat \<Rightarrow> (ARPFrame \<times> nat) list \<Rightarrow> bool" where
  "paced m [] = True"
| "paced m [x] = True"
| "paced m (x # y # ys) = (m \<le> snd x \<and> paced m (y # ys))"

definition target0 :: TargetDevice where
  "target0 =
     \<lparr>t_ip = ''192.168.1.77'', t_mac = ''AA:BB:00:00:00:11'', t_hostname = None,
      t_last_seen = None, t_active = True\<rparr>"

definition gateway0 :: ARPGateway where
  "gateway0 =
     \<lparr>gw_interface = ''eth0'', gateway_ip = Some ''192.168.1.1'',
      gateway_mac = Some ''CC:DD:00:00:00:22'', our_mac = ''02:00:00:00:00:01'',
      targets = [(''192.168.1.77'', target0)], running = True, has_spoof_thread = True\<rparr>"

definition never_fails :: "ARPFrame \<Rightarrow> bool" where
  "never_fails f = False"

definition always_fails :: "ARPFrame \<Rightarrow> bool" where
  "always_fails f = True"

text \<open>
  The gateway after a \<open>start()\<close> that found the gateway's address but not its hardware
  address: it returned \<open>False\<close> before the spoof thread was made.
\<close>

definition unresolved_gateway :: ARPGateway where
  "unresolved_gateway =
     gateway0\<lparr>gateway_mac := None, running := False, has_spoof_thread := False\<rparr>"

subsection \<open>The proxy\<close>

definition interceptor0 :: TrafficInterceptor where
  "interceptor0 =
     \<lparr>config = \<lparr>block_list = {''ads.example''}, category_blocks = {}\<rparr>, active_flows = []\<rparr>"

definition flow0 :: HTTPFlow where
  "flow0 =
     \<lparr>flow_id = ''flow-1'', request_host = ''ads.example'',
      request_pretty_url = ''http://ads.example/'', response = None, killed = False\<rparr>"

definition env0 :: proxy_env where
  "env0 =
     \<lparr>env_categorize = (\<lambda>h. TC_OTHER), env_parse = (\<lambda>f. Inr []), env_clock = 0,
      env_stamp = ''2024-01-01T00:00:00''\<rparr>"

subsection \<open>The device table\<close>

definition mac_unique :: "DeviceStore \<Rightarrow> bool" where
  "mac_unique db = distinct (map mac_address (devices db))"

text \<open>A sequence of \<open>add_device\<close> calls, up to the first that raises.\<close>

fun add_devices :: "DeviceStore \<Rightarrow> Device list \<Rightarrow> db_error + DeviceStore" where
  "add_devices db [] = Inr db"
| "add_devices db (device # rest) =
     (case add_device db device of Inl err \<Rightarrow> Inl err | Inr db' \<Rightarrow> add_devices db' rest)"

definition count_after :: "DeviceStore \<Rightarrow> Device list \<Rightarrow> string \<Rightarrow> nat option" where
  "count_after db ds a =
     (case add_devices db ds of Inr db' \<Rightarrow> Some (records_with_mac db' a) | Inl err \<Rightarrow> None)"

definition empty_store :: DeviceStore where
  "empty_store = \<lparr>devices = [], child_refs = {}\<rparr>"

definition device0 :: Device where
  "device0 =
     \<lparr>d_id = ''dev-1'', mac_address = ''aa:bb:cc:dd:ee:11'', ip_address = ''192.168.1.77'',
      hostname = None, device_type = DT_UNKNOWN, manufacturer = None, nickname = None,
      is_monitored = True, has_certificate = False, first_seen = None, last_seen = None,
      total_requests = 0, total_bytes = 0, metadata = ''{}''\<rparr>"

text \<open>The same device id seen with another address, and a store that holds \<open>device0\<close>
  with a DNS record referring to it.\<close>

definition device0_readdressed :: Device where
  "device0_readdressed = device0\<lparr>mac_address := ''aa:bb:cc:dd:ee:22''\<rparr>"

definition store1 :: DeviceStore where
  "store1 = \<lparr>devices = [device0], child_refs = {''dev-1''}\<rparr>"

section \<open>Verified properties\<close>

subsection \<open>Blocking and unblocking a domain\<close>

text \<open>
  Claim C7, as stated, fails when the domain was blocked before: the pair of calls then
  removes it. Here the policy blocks \<open>ads.example\<close> at the start and no longer does at
  the end.
\<close>

theorem block_unblock_domain_counterexample:
  "policy_of (unblock_domain
      (block_domain (engine0\<lparr>blocked_domains := {''ads.example''}\<rparr>) ''ads.example'')
      ''ads.example'')
   \<noteq> policy_of (engine0\<lparr>blocked_domains := {''ads.example''}\<rparr>)"
  by (simp add: policy_of_def unblock_domain_def block_domain_def save_config_def engine0_def
      str_simps)

text \<open>
  Claim C7, amended: for every engine state \<open>S\<close> and every domain \<open>d\<close> whose normalised
  form (lower case, stripped) is not in the blocked-domain set of \<open>S\<close>,
  \<open>block_domain(d)\<close> followed by \<open>unblock_domain(d)\<close> leaves every policy field, and the
  schedule manager, as in \<open>S\<close>.
\<close>

theorem block_unblock_domain:
  assumes "strip (lower d) \<notin> blocked_domains S"
  shows "policy_of (unblock_domain (block_domain S d) d) = policy_of S
    \<and> schedule_manager (unblock_domain (block_domain S d) d) = schedule_manager S"
  using assms
  by (simp add: policy_of_def unblock_domain_def block_domain_def save_config_def Let_def)

theorem block_unblock_domain_witness:
  "strip (lower ''Ads.Example '') \<notin> blocked_domains engine0
   \<and> policy_of (unblock_domain (block_domain engine0 ''Ads.Example '') ''Ads.Example '')
       = policy_of engine0"
proof -
  have h: "strip (lower ''Ads.Example '') \<notin> blocked_domains engine0"
    by (simp add: engine0_def)
  from block_unblock_domain [OF h] h show ?thesis by simp
qed

subsection \<open>Matching a query name against the DNS blocklist\<close>

lemma startswith_star_dot: "startswith e ''*.'' \<Longrightarrow> drop 1 e = CHR ''.'' # drop 2 e"
  by (cases e; cases "tl e") auto

text \<open>
  Claim C5, as stated, fails for wildcard entries: with the single entry
  \<open>*.example.com\<close> the name \<open>example.com\<close> ends with the suffix \<open>example.com\<close>, yet the
  blocker does not classify it as blocked.
\<close>

theorem is_blocked_wildcard_counterexample:
  "\<not> (is_blocked (blocker0\<lparr>dns_blocked_domains := {''*.example.com''}\<rparr>) ''example.com''
        \<longleftrightarrow> spec_entry_match ''example.com'' ''*.example.com'')"
  by (simp add: is_blocked_def spec_entry_match_def blocker0_def str_simps)

text \<open>
  Claim C5, amended: a query name \<open>q\<close> is classified as blocked if and only if, for its
  lower-cased form without trailing dots \<open>d\<close>, some stored blocklist entry \<open>e\<close> equals
  \<open>d\<close>, or \<open>d\<close> ends with a dot followed by \<open>e\<close>, or \<open>e\<close> has the form \<open>*.suffix\<close> and
  \<open>d\<close> ends with \<open>.suffix\<close> (the dot included, so neither \<open>suffix\<close> itself nor a name
  that merely ends with the letters of \<open>suffix\<close> is matched by the wildcard).
\<close>

theorem is_blocked_iff:
  "is_blocked b q \<longleftrightarrow> (\<exists>e \<in> dns_blocked_domains b. entry_matches (rstrip_dot (lower q)) e)"
  unfolding is_blocked_def entry_matches_def Let_def
  using startswith_star_dot by (auto simp del: One_nat_def)

theorem is_blocked_iff_witness:
  "is_blocked (blocker0\<lparr>dns_blocked_domains := {''*.example.com''}\<rparr>) ''WWW.Example.com.''
   \<and> (\<exists>e \<in> dns_blocked_domains (blocker0\<lparr>dns_blocked_domains := {''*.example.com''}\<rparr>).
         entry_matches (rstrip_dot (lower ''WWW.Example.com.'')) e)"
  using is_blocked_iff [of "blocker0\<lparr>dns_blocked_domains := {''*.example.com''}\<rparr>"
      "''WWW.Example.com.''"]
  by (simp add: blocker0_def entry_matches_def str_simps)

subsection \<open>Well-formed schedules do not raise\<close>

lemma all_days_complete: "day \<in> set all_days"
  by (cases day) (simp_all add: all_days_def)

lemma contains_valid: "valid_range r \<Longrightarrow> \<exists>inside. contains r t = Inr inside"
  by (auto simp: valid_range_def contains_def mk_time_def)

lemma any_contains_valid:
  "\<forall>r \<in> set rs. valid_range r \<Longrightarrow> \<exists>inside. any_contains rs t = Inr inside"
proof (induction rs)
  case Nil
  then show ?case by auto
next
  case (Cons r rs)
  then obtain inside where "contains r t = Inr inside"
    using contains_valid[of r t] by auto
  with Cons show ?case by auto
qed

lemma outside_window_parses:
  "date_parses env date_text \<Longrightarrow> \<exists>out. outside_window env date_text before = Inr out"
  by (auto simp: date_parses_def outside_window_def split: option.splits sum.splits)

lemma is_active_now_well_formed:
  assumes "well_formed env s"
  shows "\<exists>active. is_active_now env s = Inr active"
proof -
  let ?rs = "case time_ranges s (dt_weekday (py_now env)) of Some rs \<Rightarrow> rs | None \<Rightarrow> []"
  from assms have "\<forall>r \<in> set ?rs. valid_range r"
    using all_days_complete[of "dt_weekday (py_now env)"] by (auto simp: well_formed_def)
  then obtain inside where a: "any_contains ?rs (dt_time (py_now env)) = Inr inside"
    using any_contains_valid by blast
  from assms obtain early
    where b: "outside_window env (start_date s) (\<lambda>today start. date_lt today start) = Inr early"
    using outside_window_parses by (auto simp: well_formed_def) blast
  from assms obtain late
    where c: "outside_window env (end_date s) (\<lambda>today end'. date_lt end' today) = Inr late"
    using outside_window_parses by (auto simp: well_formed_def) blast
  show ?thesis by (auto simp: is_active_now_def a b c Let_def)
qed

lemma should_block_well_formed:
  assumes "well_formed env s"
  shows "Schedule_should_block env s domain cat = Inr (blocks env s domain cat)"
proof -
  from is_active_now_well_formed[OF assms] obtain active
    where "is_active_now env s = Inr active" ..
  then obtain b where "Schedule_should_block env s domain cat = Inr b"
    by (simp add: Schedule_should_block_def)
  then show ?thesis by (simp add: blocks_def)
qed

lemma should_block_loop_find:
  "\<forall>s \<in> set xs. well_formed env s \<Longrightarrow>
     should_block_loop env xs domain cat =
       Inr (case find (\<lambda>s. blocks env s domain cat) xs of
              Some s \<Rightarrow> (True, Some (s_id s)) | None \<Rightarrow> (False, None))"
  by (induction xs) (auto simp: should_block_well_formed)

lemma manager_well_formed:
  assumes "schedules_well_formed env m"
  shows "Manager_should_block env m domain cat =
       Inr (case find (\<lambda>s. blocks env s domain cat) (sorted_schedules m) of
              Some s \<Rightarrow> (True, Some (s_id s)) | None \<Rightarrow> (False, None))"
  unfolding Manager_should_block_def
  by (rule should_block_loop_find)
     (use assms in \<open>simp add: schedules_well_formed_def sorted_schedules_def\<close>)

subsection \<open>The order of the rules in \<open>check\<close>\<close>

lemma url_patterns_loop_truthy:
  "[] \<notin> set ps \<Longrightarrow>
     truthy (url_patterns_loop R ps url) \<longleftrightarrow> (\<exists>p \<in> set ps. re_search R p True url \<noteq> None)"
  by (induction ps) (auto simp: truthy_def)

lemma keywords_loop_truthy:
  "[] \<notin> set ks \<Longrightarrow> truthy (keywords_loop ks c) \<longleftrightarrow> (\<exists>k \<in> set ks. py_in (lower k) c)"
  by (induction ks) (auto simp: truthy_def)

lemma category_loop_None:
  "category_loop e cs = None \<longleftrightarrow> (\<forall>c \<in> set cs. c \<notin> blocked_categories e)"
  by (induction cs) auto

lemma category_loop_Some:
  "category_loop e cs = Some d \<Longrightarrow> should_block d \<and> rule_type d = Some ''category''"
  by (induction cs) (auto simp: block_decision_def split: if_splits)

lemma keyword_category_loop_None:
  "keyword_category_loop e cs = None \<longleftrightarrow> (\<forall>c \<in> set cs. c \<notin> blocked_categories e)"
  by (induction cs) auto

lemma keyword_category_loop_Some:
  "keyword_category_loop e cs = Some d \<Longrightarrow> should_block d \<and> rule_type d = Some ''keyword''"
  by (induction cs) (auto simp: block_decision_def split: if_splits)

lemma manager_blocks_well_formed:
  assumes "schedules_well_formed env m"
  shows "\<exists>sid. Manager_should_block env m domain cat = Inr (manager_blocks env m domain cat, sid)"
  unfolding manager_blocks_def manager_well_formed[OF assms]
  by (auto split: option.splits)

lemma schedule_category_loop_well_formed:
  assumes "schedules_well_formed env (schedule_manager e)"
  shows "\<exists>r. schedule_category_loop env e domain cs = Inr r
     \<and> (r = None \<longleftrightarrow>
          (\<forall>c \<in> set cs. \<not> manager_blocks env (schedule_manager e) domain (category_value c)))
     \<and> (\<forall>d. r = Some d \<longrightarrow> should_block d \<and> rule_type d = Some ''schedule'')"
proof (induction cs)
  case Nil
  then show ?case by simp
next
  case (Cons c cs)
  from manager_blocks_well_formed[OF assms, of domain "category_value c"] obtain sid
    where m: "Manager_should_block env (schedule_manager e) domain (category_value c)
        = Inr (manager_blocks env (schedule_manager e) domain (category_value c), sid)" ..
  show ?case
  proof (cases "manager_blocks env (schedule_manager e) domain (category_value c)")
    case True
    then show ?thesis using m by (simp add: block_decision_def)
  next
    case False
    then show ?thesis using m Cons by simp
  qed
qed

lemma schedule_step_well_formed:
  assumes "schedules_well_formed env (schedule_manager e)"
  shows "\<exists>r. schedule_step env e domain (check_domain_category defs domain) = Inr r
     \<and> (r = None \<longleftrightarrow> \<not> rule5 defs env e domain)
     \<and> (\<forall>d. r = Some d \<longrightarrow> should_block d \<and> rule_type d = Some ''schedule'')"
proof -
  let ?cs = "check_domain_category defs domain"
  from schedule_category_loop_well_formed[OF assms, of domain ?cs] obtain r
    where r: "schedule_category_loop env e domain ?cs = Inr r"
      and rn: "r = None \<longleftrightarrow>
          (\<forall>c \<in> set ?cs. \<not> manager_blocks env (schedule_manager e) domain (category_value c))"
      and rs: "\<forall>d. r = Some d \<longrightarrow> should_block d \<and> rule_type d = Some ''schedule''"
    by blast
  from manager_blocks_well_formed[OF assms, of domain "[]"] obtain sid
    where m: "Manager_should_block env (schedule_manager e) domain []
        = Inr (manager_blocks env (schedule_manager e) domain [], sid)" ..
  show ?thesis
  proof (cases r)
    case None
    then show ?thesis using r rn m
      by (auto simp: schedule_step_def rule5_def block_decision_def)
  next
    case (Some d)
    then show ?thesis using r rn rs
      by (auto simp: schedule_step_def rule5_def)
  qed
qed

lemma custom_rules_loop_None:
  "custom_rules_loop rs domain = None \<longleftrightarrow>
     (\<forall>r \<in> set rs.
        \<not> (br_enabled r \<and> br_rule_type r = ''domain'' \<and> domain = lower (br_value r)))"
  by (induction rs) auto

lemma custom_rules_loop_Some:
  "custom_rules_loop rs domain = Some d \<Longrightarrow> should_block d \<and> rule_type d = Some ''custom''"
  by (induction rs) (auto simp: block_decision_def split: if_splits)

text \<open>
  On a policy without an empty URL pattern and without an empty blocked keyword, and with
  well-formed schedules, the rules are tried in the order of the specification and the
  first class with a match decides.
\<close>

lemma check_order:
  assumes "[] \<notin> set (url_patterns e)" and "[] \<notin> set (blocked_keywords e)"
    and "schedules_well_formed env (schedule_manager e)"
    and "domain = strip (lower domain0)" and "url = strip (lower url0)"
    and "res = check R defs env e domain0 url0 content True"
  shows "rule1 e domain \<Longrightarrow> res = Inr (allow_decision ''Domain is whitelisted'')"
    and "\<not> rule1 e domain \<Longrightarrow> rule2 e domain \<Longrightarrow>
           \<exists>d. res = Inr d \<and> should_block d \<and> rule_type d = Some ''domain''"
    and "\<not> rule1 e domain \<Longrightarrow> \<not> rule2 e domain \<Longrightarrow> rule3 R e url \<Longrightarrow>
           \<exists>d. res = Inr d \<and> should_block d \<and> rule_type d = Some ''url_pattern''"
    and "\<not> rule1 e domain \<Longrightarrow> \<not> rule2 e domain \<Longrightarrow> \<not> rule3 R e url \<Longrightarrow>
           rule4 defs e domain \<Longrightarrow>
           \<exists>d. res = Inr d \<and> should_block d \<and> rule_type d = Some ''category''"
    and "\<not> rule1 e domain \<Longrightarrow> \<not> rule2 e domain \<Longrightarrow> \<not> rule3 R e url \<Longrightarrow>
           \<not> rule4 defs e domain \<Longrightarrow> rule5 defs env e domain \<Longrightarrow>
           \<exists>d. res = Inr d \<and> should_block d \<and> rule_type d = Some ''schedule''"
    and "\<not> rule1 e domain \<Longrightarrow> \<not> rule2 e domain \<Longrightarrow> \<not> rule3 R e url \<Longrightarrow>
           \<not> rule4 defs e domain \<Longrightarrow> \<not> rule5 defs env e domain \<Longrightarrow>
           rule6 defs e url content \<or> rule7 e url content \<Longrightarrow>
           \<exists>d. res = Inr d \<and> should_block d \<and> rule_type d = Some ''keyword''"
    and "\<not> rule1 e domain \<Longrightarrow> \<not> rule2 e domain \<Longrightarrow> \<not> rule3 R e url \<Longrightarrow>
           \<not> rule4 defs e domain \<Longrightarrow> \<not> rule5 defs env e domain \<Longrightarrow>
           \<not> rule6 defs e url content \<Longrightarrow> \<not> rule7 e url content \<Longrightarrow> rule8 e domain \<Longrightarrow>
           \<exists>d. res = Inr d \<and> should_block d \<and> rule_type d = Some ''custom''"
    and "\<not> rule1 e domain \<Longrightarrow> \<not> rule2 e domain \<Longrightarrow> \<not> rule3 R e url \<Longrightarrow>
           \<not> rule4 defs e domain \<Longrightarrow> \<not> rule5 defs env e domain \<Longrightarrow>
           \<not> rule6 defs e url content \<Longrightarrow> \<not> rule7 e url content \<Longrightarrow> \<not> rule8 e domain \<Longrightarrow>
           res = Inr (allow_decision ''Allowed'')"
proof -
  have u: "truthy (check_url_patterns R e url) \<longleftrightarrow> rule3 R e url"
    using assms(1) by (simp add: check_url_patterns_def rule3_def url_patterns_loop_truthy)
  have k: "truthy (check_keywords e url content) \<longleftrightarrow> rule7 e url content"
    using assms(2) by (simp add: check_keywords_def rule7_def keywords_loop_truthy)
  have c4: "category_loop e (check_domain_category defs domain) = None
      \<longleftrightarrow> \<not> rule4 defs e domain"
    by (simp add: category_loop_None rule4_def)
  from schedule_step_well_formed[OF assms(3), of domain defs] obtain r
    where s5: "schedule_step env e domain (check_domain_category defs domain) = Inr r"
      and c5: "r = None \<longleftrightarrow> \<not> rule5 defs env e domain"
      and d5: "\<forall>d. r = Some d \<longrightarrow> should_block d \<and> rule_type d = Some ''schedule''"
    by blast
  have c6: "keyword_category_loop e (check_url_keywords defs url content) = None
      \<longleftrightarrow> \<not> rule6 defs e url content"
    by (simp add: keyword_category_loop_None rule6_def)
  have c8: "custom_rules_loop (dict_values (custom_rules e)) domain = None
      \<longleftrightarrow> \<not> rule8 e domain"
    by (auto simp: custom_rules_loop_None rule8_def)
  have chk: "res =
     (if rule1 e domain then Inr (allow_decision ''Domain is whitelisted'')
      else if rule2 e domain
        then Inr (block_decision (''Domain blocked: '' @ domain) None (Some ''domain'')
                    None None)
      else if rule3 R e url
        then Inr (block_decision
                    (''URL pattern matched: '' @ the (check_url_patterns R e url))
                    None (Some ''url_pattern'') None None)
      else case category_loop e (check_domain_category defs domain) of
             Some d \<Rightarrow> Inr d
           | None \<Rightarrow>
              (case r of
                 Some d \<Rightarrow> Inr d
               | None \<Rightarrow>
                  (case keyword_category_loop e (check_url_keywords defs url content) of
                     Some d \<Rightarrow> Inr d
                   | None \<Rightarrow>
                      if rule7 e url content
                      then Inr (block_decision
                                  (''Keyword blocked: '' @ the (check_keywords e url content))
                                  None (Some ''keyword'') None None)
                      else (case custom_rules_loop (dict_values (custom_rules e)) domain of
                              Some d \<Rightarrow> Inr d
                            | None \<Rightarrow> Inr (allow_decision ''Allowed'')))))"
    unfolding assms(6) check_def Let_def assms(4)[symmetric] assms(5)[symmetric] u k
    by (simp add: is_whitelisted_def check_domain_block_def rule1_def rule2_def s5
        split: option.splits)
  show "rule1 e domain \<Longrightarrow> res = Inr (allow_decision ''Domain is whitelisted'')"
    using chk by simp
  show "\<not> rule1 e domain \<Longrightarrow> rule2 e domain \<Longrightarrow>
          \<exists>d. res = Inr d \<and> should_block d \<and> rule_type d = Some ''domain''"
    using chk by (simp add: block_decision_def)
  show "\<not> rule1 e domain \<Longrightarrow> \<not> rule2 e domain \<Longrightarrow> rule3 R e url \<Longrightarrow>
           \<exists>d. res = Inr d \<and> should_block d \<and> rule_type d = Some ''url_pattern''"
    using chk by (simp add: block_decision_def)
  show "\<not> rule1 e domain \<Longrightarrow> \<not> rule2 e domain \<Longrightarrow> \<not> rule3 R e url \<Longrightarrow>
           rule4 defs e domain \<Longrightarrow>
           \<exists>d. res = Inr d \<and> should_block d \<and> rule_type d = Some ''category''"
    using chk c4 category_loop_Some by (auto split: option.splits)
  show "\<not> rule1 e domain \<Longrightarrow> \<not> rule2 e domain \<Longrightarrow> \<not> rule3 R e url \<Longrightarrow>
           \<not> rule4 defs e domain \<Longrightarrow> rule5 defs env e domain \<Longrightarrow>
           \<exists>d. res = Inr d \<and> should_block d \<and> rule_type d = Some ''schedule''"
    using chk c4 c5 d5 by (auto split: option.splits)
  show "\<not> rule1 e domain \<Longrightarrow> \<not> rule2 e domain \<Longrightarrow> \<not> rule3 R e url \<Longrightarrow>
           \<not> rule4 defs e domain \<Longrightarrow> \<not> rule5 defs env e domain \<Longrightarrow>
           rule6 defs e url content \<or> rule7 e url content \<Longrightarrow>
           \<exists>d. res = Inr d \<and> should_block d \<and> rule_type d = Some ''keyword''"
    using chk c4 c5 c6 keyword_category_loop_Some
    by (auto simp: block_decision_def split: option.splits)
  show "\<not> rule1 e domain \<Longrightarrow> \<not> rule2 e domain \<Longrightarrow> \<not> rule3 R e url \<Longrightarrow>
           \<not> rule4 defs e domain \<Longrightarrow> \<not> rule5 defs env e domain \<Longrightarrow>
           \<not> rule6 defs e url content \<Longrightarrow> \<not> rule7 e url content \<Longrightarrow> rule8 e domain \<Longrightarrow>
           \<exists>d. res = Inr d \<and> should_block d \<and> rule_type d = Some ''custom''"
    using chk c4 c5 c6 c8 custom_rules_loop_Some by (auto split: option.splits)
  show "\<not> rule1 e domain \<Longrightarrow> \<not> rule2 e domain \<Longrightarrow> \<not> rule3 R e url \<Longrightarrow>
           \<not> rule4 defs e domain \<Longrightarrow> \<not> rule5 defs env e domain \<Longrightarrow>
           \<not> rule6 defs e url content \<Longrightarrow> \<not> rule7 e url content \<Longrightarrow> \<not> rule8 e domain \<Longrightarrow>
           res = Inr (allow_decision ''Allowed'')"
    using chk c4 c5 c6 c8 by (auto split: option.splits)
qed

text \<open>
  Claim C1 at a failing input. The policy blocks the keywords \<open>""\<close> and \<open>forbidden\<close>;
  the URL contains \<open>forbidden\<close>, so rule 7 has a match and no earlier rule has one. The
  keyword scan returns its first hit, the empty string, which the caller's \<open>if\<close> takes
  for no hit: the request is allowed.
\<close>

theorem check_empty_keyword_allows:
  "check no_re CATEGORY_DEFINITIONS monday_env keyword_engine
     ''example.org'' ''http://example.org/forbidden'' [] True
     = Inr (allow_decision ''Allowed'')
   \<and> rule7 keyword_engine ''http://example.org/forbidden'' []
   \<and> check_keywords keyword_engine ''http://example.org/forbidden'' [] = Some []"
  by code_simp

subsection \<open>Restoring ARP mappings\<close>

lemma frames_of_append: "frames_of (a @ b) = frames_of a @ frames_of b"
  by (induction a rule: frames_of.induct) auto

lemma count_frame_append: "count_frame f (a @ b) = count_frame f a + count_frame f b"
  by (simp add: count_frame_def frames_of_append)

lemma restore_target_ok:
  assumes "\<forall>f. \<not> fails f" and "gateway_ip g = Some gip" and "gateway_mac g = Some gmac"
  shows "restore_target fails g ip mac =
     ([Sendp (to_target_frame gip gmac ip mac) 3 0,
       Sendp (to_gateway_frame gip gmac ip mac) 3 0], True)"
  using assms
  by (simp add: restore_target_def to_target_frame_def to_gateway_frame_def Let_def
      sendp_default_inter_def)

lemma restore_target_gaps:
  "\<forall>x \<in> set (frames_of (fst (restore_target fails g ip mac))). snd x = 0"
  by (auto simp: restore_target_def Let_def sendp_default_inter_def)

lemma restore_all_gaps: "\<forall>x \<in> set (frames_of (restore_all fails g ts)). snd x = 0"
proof (induction ts)
  case Nil
  then show ?case by simp
next
  case (Cons a ts)
  obtain ip t where a: "a = (ip, t)" by (cases a)
  show ?case using Cons restore_target_gaps[of fails g ip "t_mac t"]
    by (auto simp: a frames_of_append)
qed

lemma restore_all_counts:
  assumes "\<forall>f. \<not> fails f" and "gateway_ip g = Some gip" and "gateway_mac g = Some gmac"
    and "(ip, t) \<in> set ts"
  shows "3 \<le> count_frame (to_target_frame gip gmac ip (t_mac t)) (restore_all fails g ts)
       \<and> 3 \<le> count_frame (to_gateway_frame gip gmac ip (t_mac t)) (restore_all fails g ts)"
  using assms(4)
proof (induction ts)
  case Nil
  then show ?case by simp
next
  case (Cons a ts)
  obtain ip' t' where a: "a = (ip', t')" by (cases a)
  show ?case
  proof (cases "a = (ip, t)")
    case True
    then show ?thesis
      by (simp add: restore_target_ok[OF assms(1-3)] count_frame_append)
         (simp add: count_frame_def)
  next
    case False
    with Cons have "(ip, t) \<in> set ts" by auto
    from Cons.IH[OF this] show ?thesis
      by (simp add: a count_frame_append)
  qed
qed

text \<open>
  Claim C2, as stated, fails in three ways. The gateway passes no pause to the sender,
  so consecutive restorative frames are not 50 ms apart: stopping a gateway with one
  target writes six frames with no pause between them. An exception of a send is
  swallowed by \<open>stop()\<close>: when every send raises, no frame is written at all, yet
  the target is reported as restored. And
  \<open>stop()\<close> after a \<open>start()\<close> that could not resolve the gateway's hardware address
  never writes the frame that tells the target the gateway's true mapping.
\<close>

theorem restore_not_paced_counterexample:
  "\<not> paced 50 (frames_of (snd (stop never_fails gateway0)))
   \<and> frames_of (snd (stop always_fails gateway0)) = []
   \<and> last (snd (stop always_fails gateway0)) = Callback (Stopped [''192.168.1.77''])
   \<and> count_frame
        (to_target_frame ''192.168.1.1'' ''CC:DD:00:00:00:22'' ''192.168.1.77''
           ''AA:BB:00:00:00:11'')
        (snd (stop never_fails unresolved_gateway)) = 0"
  by (simp add: stop_def gateway0_def unresolved_gateway_def target0_def never_fails_def
      always_fails_def restore_target_def Let_def sendp_default_inter_def numeral_3_eq_3
      count_frame_def to_target_frame_def)

text \<open>
  Claim C2, amended: when the gateway's address and hardware address are resolved and
  no send raises, \<open>stop()\<close> writes, for every target in the dictionary, the restorative
  frame to the target and the restorative frame to the gateway at least three times
  each before it returns, and \<open>remove_target(ip)\<close> of a known target sends exactly
  three of each and then reports the removal; the frames are sent back to back, no
  pause is requested between them.
\<close>

theorem restore_on_stop_and_remove:
  assumes "\<forall>f. \<not> fails f" and "gateway_ip g = Some gip" and "gateway_mac g = Some gmac"
  shows "(\<forall>ip t. (ip, t) \<in> set (targets g) \<longrightarrow>
            3 \<le> count_frame (to_target_frame gip gmac ip (t_mac t)) (snd (stop fails g))
          \<and> 3 \<le> count_frame (to_gateway_frame gip gmac ip (t_mac t)) (snd (stop fails g)))
    \<and> (\<forall>ip t. map_of (targets g) ip = Some t \<longrightarrow>
          fst (snd (remove_target fails g ip)) =
            [Sendp (to_target_frame gip gmac ip (t_mac t)) 3 0,
             Sendp (to_gateway_frame gip gmac ip (t_mac t)) 3 0,
             Callback (TargetRemoved ip)])
    \<and> (\<forall>x \<in> set (frames_of (snd (stop fails g))). snd x = 0)"
proof (intro conjI allI impI ballI)
  fix ip t assume m: "(ip, t) \<in> set (targets g)"
  let ?g1 = "g\<lparr>running := False\<rparr>"
  have gw: "gateway_ip ?g1 = Some gip" "gateway_mac ?g1 = Some gmac"
    using assms(2,3) by simp_all
  from m have "(ip, t) \<in> set (targets ?g1)" by simp
  from restore_all_counts[OF assms(1) gw this]
  have "3 \<le> count_frame (to_target_frame gip gmac ip (t_mac t))
              (restore_all fails ?g1 (targets ?g1))"
    and "3 \<le> count_frame (to_gateway_frame gip gmac ip (t_mac t))
              (restore_all fails ?g1 (targets ?g1))"
    by simp_all
  then show "3 \<le> count_frame (to_target_frame gip gmac ip (t_mac t)) (snd (stop fails g))"
    and "3 \<le> count_frame (to_gateway_frame gip gmac ip (t_mac t)) (snd (stop fails g))"
    by (simp_all add: stop_def Let_def count_frame_append)
next
  fix ip t assume "map_of (targets g) ip = Some t"
  then show "fst (snd (remove_target fails g ip)) =
            [Sendp (to_target_frame gip gmac ip (t_mac t)) 3 0,
             Sendp (to_gateway_frame gip gmac ip (t_mac t)) 3 0,
             Callback (TargetRemoved ip)]"
    by (simp add: remove_target_def restore_target_ok[OF assms])
next
  fix x assume "x \<in> set (frames_of (snd (stop fails g)))"
  then show "snd x = 0"
    using restore_all_gaps[of fails "g\<lparr>running := False\<rparr>" "targets g"]
    by (auto simp: stop_def Let_def frames_of_append split: if_splits)
qed

theorem restore_on_stop_and_remove_witness:
  "(\<forall>f. \<not> never_fails f)
   \<and> gateway_ip gateway0 = Some ''192.168.1.1''
   \<and> gateway_mac gateway0 = Some ''CC:DD:00:00:00:22''
   \<and> (''192.168.1.77'', target0) \<in> set (targets gateway0)
   \<and> 3 \<le> count_frame
            (to_target_frame ''192.168.1.1'' ''CC:DD:00:00:00:22'' ''192.168.1.77''
               (t_mac target0))
            (snd (stop never_fails gateway0))
   \<and> 3 \<le> count_frame
            (to_gateway_frame ''192.168.1.1'' ''CC:DD:00:00:00:22'' ''192.168.1.77''
               (t_mac target0))
            (snd (stop never_fails gateway0))"
proof -
  have h: "\<forall>f. \<not> never_fails f" by (simp add: never_fails_def)
  have g: "gateway_ip gateway0 = Some ''192.168.1.1''"
    "gateway_mac gateway0 = Some ''CC:DD:00:00:00:22''"
    by (simp_all add: gateway0_def)
  have m: "(''192.168.1.77'', target0) \<in> set (targets gateway0)"
    by (simp add: gateway0_def)
  from restore_on_stop_and_remove [OF h g] m h g show ?thesis by blast
qed

subsection \<open>Blocking a proxied request\<close>

lemma request_blocked:
  assumes "proxy_should_block ti flow
           \<or> env_categorize env (request_host flow) \<in> category_blocks (config ti)"
  shows "fst (request env ti flow) = ti"
    and "response (fst (snd (request env ti flow))) = response flow"
    and "killed (fst (snd (request env ti flow)))"
    and "map event_type (snd (snd (request env ti flow))) = [''blocked'']"
  using assms by (auto simp: request_def block_flow_def Let_def)

text \<open>
  Claim C3 at a failing input. The block list holds \<open>ads.example\<close> and a request for
  \<open>http://ads.example/\<close> arrives: the hook kills the flow and emits the \<open>blocked\<close>
  event, and the flow's response slot stays empty. No 403 response is made.
\<close>

theorem request_blocked_no_response:
  "request env0 interceptor0 flow0 =
     (interceptor0, flow0\<lparr>killed := True\<rparr>,
      [\<lparr>event_type = ''blocked'', fe_flow_id = ''flow-1'',
        fe_timestamp = ''2024-01-01T00:00:00'',
        fe_data = [(''reason'', ''Domain blocked by policy''), (''host'', ''ads.example''),
                   (''url'', ''http://ads.example/'')]\<rparr>])
   \<and> response (flow0\<lparr>killed := True\<rparr>) = None"
  by (simp add: request_def interceptor0_def flow0_def env0_def proxy_should_block_def
      block_flow_def str_simps)

subsection \<open>The NXDOMAIN reply\<close>

text \<open>A question whose name does not decode is reported as an error and not answered.\<close>

lemma process_packet_undecodable:
  assumes "pkt_dns p = Some d" and "qr d = 0" and "qd d \<noteq> []"
    and "decode (qname (hd (qd d))) = Inl err"
  shows "process_packet decode ts b p = (b, [PrintError])"
  using assms by (simp add: process_packet_def)

text \<open>
  Claim C4, as stated, fails on the opcode: the reply is built with the default opcode
  0 whatever the query carried. A blocked query with opcode 2 is answered with
  opcode 0.
\<close>

theorem nxdomain_opcode_counterexample:
  "map opcode (sent_dns (snd (process_packet ascii_only_decode ''t'' ads_blocker status_query)))
     = [0]
   \<and> map_option opcode (pkt_dns status_query) = Some 2"
  by (simp add: process_packet_def status_query_def query0_def ads_blocker_def blocker0_def
      is_blocked_def create_nxdomain_response_def DNS_default_def str_simps Let_def
      ascii_only_decode_def)

text \<open>
  Claim C4, amended: for every DNS query over IPv4 whose name decodes and is blocked,
  processed in nxdomain mode, exactly one reply is sent; it carries the query's
  transaction id, opcode 0 (the query's opcode is not copied), QR=1, AA=1, RCODE=3, the
  question section of the query and no answer records, and it goes from port 53 to the
  address and port the query came from.
\<close>

theorem nxdomain_reply:
  assumes "block_mode b = ''nxdomain''"
    and "pkt_ip p = Some i" and "pkt_udp p = Some u" and "pkt_dns p = Some d"
    and "qr d = 0" and "qd d \<noteq> []"
    and "decode (qname (hd (qd d))) = Inr name"
    and "is_blocked b (rstrip_dot name)"
  shows "\<exists>r rd. sent_packets (snd (process_packet decode ts b p)) = [r]
     \<and> pkt_ip r = Some \<lparr>ip_src = ip_dst i, ip_dst = ip_src i\<rparr>
     \<and> pkt_udp r = Some \<lparr>sport = 53, dport = sport u\<rparr>
     \<and> pkt_dns r = Some rd
     \<and> dns_id rd = dns_id d \<and> opcode rd = 0 \<and> qr rd = 1 \<and> aa rd = 1 \<and> rcode rd = 3
     \<and> qd rd = qd d \<and> an rd = []"
  using assms
  by (simp add: process_packet_def create_nxdomain_response_def DNS_default_def Let_def)

theorem nxdomain_reply_witness:
  "block_mode ads_blocker = ''nxdomain''
   \<and> ascii_only_decode ''ads.example.'' = Inr ''ads.example.''
   \<and> is_blocked ads_blocker (rstrip_dot ''ads.example.'')
   \<and> (\<exists>r rd. sent_packets (snd (process_packet ascii_only_decode ''t'' ads_blocker query0))
               = [r]
        \<and> pkt_ip r = Some \<lparr>ip_src = ''192.168.1.1'', ip_dst = ''192.168.1.23''\<rparr>
        \<and> pkt_dns r = Some rd \<and> dns_id rd = 0x1234 \<and> qr rd = 1 \<and> rcode rd = 3
        \<and> an rd = [])"
proof -
  let ?i = "\<lparr>ip_src = ''192.168.1.23'', ip_dst = ''192.168.1.1''\<rparr>"
  let ?u = "\<lparr>sport = 40000, dport = 53\<rparr> :: UDP"
  let ?d = "DNS_default\<lparr>dns_id := 0x1234,
              qd := [\<lparr>qname = ''ads.example.'', qtype = 1, qclass = 1\<rparr>]\<rparr>"
  have h1: "block_mode ads_blocker = ''nxdomain''"
    by (simp add: ads_blocker_def blocker0_def)
  have h2: "pkt_ip query0 = Some ?i" "pkt_udp query0 = Some ?u" "pkt_dns query0 = Some ?d"
    by (simp_all add: query0_def)
  have h3: "qr ?d = 0" "qd ?d \<noteq> []" by (simp_all add: DNS_default_def)
  have dec: "ascii_only_decode ''ads.example.'' = Inr ''ads.example.''"
    by (simp add: ascii_only_decode_def)
  then have h4: "ascii_only_decode (qname (hd (qd ?d))) = Inr ''ads.example.''" by simp
  have h5: "is_blocked ads_blocker (rstrip_dot ''ads.example.'')"
    by (simp add: is_blocked_def ads_blocker_def blocker0_def str_simps)
  from nxdomain_reply [where decode = ascii_only_decode and name = "''ads.example.''"
      and b = ads_blocker and p = query0 and ts = "''t''", OF h1 h2 h3 h4 h5] h1 dec h5
  show ?thesis
    by (auto simp: DNS_default_def)
qed

subsection \<open>Uniqueness of the address column\<close>

lemma distinct_count: "distinct (map f xs) \<Longrightarrow> length (filter (\<lambda>x. f x = a) xs) \<le> 1"
  by (induction xs) (auto simp: filter_empty_conv intro: rev_image_eqI)

lemma records_with_mac_le: "mac_unique db \<Longrightarrow> records_with_mac db a \<le> 1"
  unfolding mac_unique_def records_with_mac_def by (rule distinct_count)

lemma update_device_stats_macs:
  "map mac_address (devices (update_device_stats now db i n k)) = map mac_address (devices db)"
  by (simp add: update_device_stats_def comp_def)

lemma add_device_unique:
  assumes "mac_unique db" and "add_device db device = Inr db'"
  shows "mac_unique db'" and "records_with_mac db' (mac_address device) = 1"
  using assms
  by (auto simp: mac_unique_def add_device_def records_with_mac_def Let_def
      distinct_map_filter filter_empty_conv split: if_splits)

lemma add_devices_unique:
  "mac_unique db \<Longrightarrow> add_devices db ds = Inr db' \<Longrightarrow> mac_unique db'"
proof (induction ds arbitrary: db)
  case Nil
  then show ?case by simp
next
  case (Cons device ds)
  show ?case
  proof (cases "add_device db device")
    case (Inl err)
    with Cons.prems(2) show ?thesis by simp
  next
    case (Inr db1)
    have u: "mac_unique db1" using add_device_unique(1)[OF Cons.prems(1) Inr] .
    from Cons.prems(2) Inr have "add_devices db1 ds = Inr db'" by simp
    from Cons.IH[OF u this] show ?thesis .
  qed
qed

text \<open>
  Claim C6, as stated, fails on "exactly one": a record disappears when its id is
  inserted again with another address. After a device is stored with address
  \<open>aa:bb:cc:dd:ee:11\<close> and then again, under the same id, with address
  \<open>aa:bb:cc:dd:ee:22\<close>, no record has the first address.
\<close>

theorem device_record_lost_counterexample:
  "count_after empty_store [device0, device0_readdressed] ''aa:bb:cc:dd:ee:11'' = Some 0"
  by (simp add: count_after_def add_device_def empty_store_def device0_def
      device0_readdressed_def records_with_mac_def)

text \<open>
  Claim C6, amended: in a table whose address column is unique there is at most one
  record for every address; a successful \<open>add_device\<close> keeps the column unique and
  leaves exactly one record with the address of the device just added; a failed one
  changes nothing; every sequence of \<open>add_device\<close> calls keeps the column unique,
  and so does \<open>update_device_stats\<close>.
\<close>

theorem mac_unique_preserved:
  assumes "mac_unique db"
  shows "(\<forall>a. records_with_mac db a \<le> 1)
    \<and> (\<forall>device db'. add_device db device = Inr db' \<longrightarrow>
          mac_unique db' \<and> records_with_mac db' (mac_address device) = 1)
    \<and> (\<forall>devs db'. add_devices db devs = Inr db' \<longrightarrow> mac_unique db')
    \<and> (\<forall>now i n k. mac_unique (update_device_stats now db i n k))"
proof (intro conjI allI impI)
  fix a show "records_with_mac db a \<le> 1" using assms by (rule records_with_mac_le)
next
  fix device db' assume "add_device db device = Inr db'"
  then show "mac_unique db'" and "records_with_mac db' (mac_address device) = 1"
    using add_device_unique[OF assms] by blast+
next
  fix devs db' assume "add_devices db devs = Inr db'"
  then show "mac_unique db'" using add_devices_unique[OF assms] by blast
next
  fix now i n k show "mac_unique (update_device_stats now db i n k)"
    using assms by (simp add: mac_unique_def update_device_stats_macs)
qed

theorem mac_unique_preserved_witness:
  "mac_unique store1
   \<and> add_device store1 device0_readdressed
       = Inr \<lparr>devices = [device0_readdressed], child_refs = {''dev-1''}\<rparr>
   \<and> mac_unique \<lparr>devices = [device0_readdressed], child_refs = {''dev-1''}\<rparr>
   \<and> records_with_mac \<lparr>devices = [device0_readdressed], child_refs = {''dev-1''}\<rparr>
        (mac_address device0_readdressed) = 1"
proof -
  have h: "mac_unique store1" by (simp add: mac_unique_def store1_def)
  have a: "add_device store1 device0_readdressed
       = Inr \<lparr>devices = [device0_readdressed], child_refs = {''dev-1''}\<rparr>"
    by (simp add: add_device_def store1_def device0_readdressed_def device0_def)
  from mac_unique_preserved [OF h] a h show ?thesis by blast
qed

subsection \<open>The order of schedules\<close>

lemma find_hd_filter: "find P xs = (case filter P xs of [] \<Rightarrow> None | x # _ \<Rightarrow> Some x)"
  by (induction xs) auto

text \<open>
  The head of a stable sort: a least element under the key, and among the least ones
  the first of the input.
\<close>

lemma hd_sort_key_min:
  assumes "xs \<noteq> []"
  shows "hd (sort_key f xs) \<in> set xs"
    and "\<forall>t \<in> set xs. f (hd (sort_key f xs)) \<le> f t"
    and "hd (filter (\<lambda>t. f t = f (hd (sort_key f xs))) xs) = hd (sort_key f xs)"
proof -
  let ?ys = "sort_key f xs"
  from assms have ne: "?ys \<noteq> []" by (metis length_0_conv length_sort)
  then obtain y ys where ys: "?ys = y # ys" by (cases ?ys) auto
  have mem: "set xs = set (y # ys)" using ys by (metis set_sort)
  then show "hd ?ys \<in> set xs" using ys by simp
  have "sorted (map f ?ys)" by simp
  then have "\<forall>t \<in> set (y # ys). f y \<le> f t" unfolding ys by auto
  then show "\<forall>t \<in> set xs. f (hd ?ys) \<le> f t" using ys mem by simp
  have "filter (\<lambda>t. f t = f y) xs = filter (\<lambda>t. f t = f y) ?ys"
    by (simp add: sort_key_stable)
  also have "\<dots> = y # filter (\<lambda>t. f t = f y) ys" unfolding ys by simp
  finally show "hd (filter (\<lambda>t. f t = f (hd ?ys)) xs) = hd ?ys" using ys by simp
qed

lemma manager_ba_values:
  "dict_values (schedules manager_ba) =
     [always_schedule ''b''\<lparr>s_created_at := Some ''t1'', s_updated_at := Some ''t1''\<rparr>,
      always_schedule ''a''\<lparr>s_created_at := Some ''t2'', s_updated_at := Some ''t2''\<rparr>]"
  by (simp add: manager_ba_def add_schedule_def dict_values_def always_schedule_def)

lemma always_schedule_blocks:
  "Schedule_should_block monday_env
     (always_schedule i\<lparr>s_created_at := c, s_updated_at := u\<rparr>) domain cat = Inr True"
  by (simp add: Schedule_should_block_def is_active_now_def outside_window_def
      always_schedule_def)

lemma curfew_active: "is_active_now monday_env curfew = Inr True"
  by (simp add: is_active_now_def outside_window_def curfew_def monday_env_def
      monday_5pm_def january_strptime_def contains_def mk_time_def time_le_def time_key_def)

lemma curfew_well_formed: "well_formed monday_env curfew"
  by (simp add: well_formed_def date_parses_def curfew_def monday_env_def
      january_strptime_def all_days_def valid_range_def)

lemma always_schedule_well_formed: "well_formed env (always_schedule i)"
  by (simp add: well_formed_def date_parses_def always_schedule_def)

text \<open>
  Claim C8, as stated, fails: nothing compares schedule ids. Two blocking schedules of
  priority 0 were added in the order \<open>b\<close>, \<open>a\<close>; the manager reports \<open>b\<close>, the order
  (priority descending, id ascending) would report \<open>a\<close>.
\<close>

theorem schedule_tie_counterexample:
  "Manager_should_block monday_env manager_ba ''example.com'' [] = Inr (True, Some ''b'')
   \<and> spec_Manager_should_block monday_env manager_ba ''example.com'' []
       = Inr (True, Some ''a'')"
  by (simp add: Manager_should_block_def spec_Manager_should_block_def sorted_schedules_def
      manager_ba_values always_schedule_blocks)
     (simp add: always_schedule_def less_eq_prod_def less_prod_def always_schedule_blocks
        [unfolded always_schedule_def])

text \<open>
  Claim C8, amended: when every schedule of the manager is well-formed (time-range
  components are those of a time of day, date texts parse), schedules are considered in
  order of descending priority, and schedules of equal priority in the order in which
  the manager's dictionary holds them (the order of first insertion). So the manager
  reports no block when no schedule blocks the request, and otherwise the id of the
  blocking schedule of highest priority that comes first in the dictionary.
\<close>

theorem manager_should_block_order:
  assumes "schedules_well_formed env m"
  shows "(blocking env m domain cat = [] \<longrightarrow>
            Manager_should_block env m domain cat = Inr (False, None))
   \<and> (blocking env m domain cat \<noteq> [] \<longrightarrow>
        (\<exists>s \<in> set (blocking env m domain cat).
            Manager_should_block env m domain cat = Inr (True, Some (s_id s))
          \<and> (\<forall>t \<in> set (blocking env m domain cat). priority t \<le> priority s)
          \<and> s = hd (filter (\<lambda>t. priority t = priority s) (blocking env m domain cat))))"
proof -
  let ?P = "\<lambda>s. blocks env s domain cat"
  let ?f = "\<lambda>s. - priority s"
  let ?bs = "blocking env m domain cat"
  have flt: "filter ?P (sorted_schedules m) = sort_key ?f ?bs"
    by (simp add: sorted_schedules_def blocking_def filter_sort)
  have res: "Manager_should_block env m domain cat =
      Inr (case sort_key ?f ?bs of [] \<Rightarrow> (False, None) | s # _ \<Rightarrow> (True, Some (s_id s)))"
    by (simp add: manager_well_formed[OF assms] find_hd_filter flt split: list.splits)
  show ?thesis
  proof (intro conjI impI)
    assume "?bs = []"
    then show "Manager_should_block env m domain cat = Inr (False, None)"
      using res by simp
  next
    assume ne: "?bs \<noteq> []"
    let ?s = "hd (sort_key ?f ?bs)"
    from ne have "sort_key ?f ?bs \<noteq> []" by (metis length_0_conv length_sort)
    then have r: "Manager_should_block env m domain cat = Inr (True, Some (s_id ?s))"
      using res by (cases "sort_key ?f ?bs") auto
    have a: "?s \<in> set ?bs" using hd_sort_key_min(1)[OF ne] .
    have b: "\<forall>t \<in> set ?bs. priority t \<le> priority ?s"
      using hd_sort_key_min(2)[OF ne, of ?f] by simp
    have c: "?s = hd (filter (\<lambda>t. priority t = priority ?s) ?bs)"
      using hd_sort_key_min(3)[OF ne, of ?f] by simp
    from a r b c
    show "\<exists>s \<in> set ?bs. Manager_should_block env m domain cat = Inr (True, Some (s_id s))
          \<and> (\<forall>t \<in> set ?bs. priority t \<le> priority s)
          \<and> s = hd (filter (\<lambda>t. priority t = priority s) ?bs)"
      by blast
  qed
qed

theorem manager_should_block_order_witness:
  "schedules_well_formed monday_env curfew_manager
   \<and> blocking monday_env curfew_manager ''example.com'' [] = [always_schedule ''a'', curfew]
   \<and> (\<exists>s \<in> set [always_schedule ''a'', curfew].
         Manager_should_block monday_env curfew_manager ''example.com'' []
           = Inr (True, Some (s_id s))
       \<and> (\<forall>t \<in> set [always_schedule ''a'', curfew]. priority t \<le> priority s))"
proof -
  have w: "schedules_well_formed monday_env curfew_manager"
    by (simp add: schedules_well_formed_def curfew_manager_def dict_values_def
        curfew_well_formed always_schedule_well_formed)
  have "blocks monday_env (always_schedule ''a'') ''example.com'' []"
    using always_schedule_blocks[where i = "''a''" and c = None and u = None]
    by (simp add: blocks_def always_schedule_def)
  moreover have "blocks monday_env curfew ''example.com'' []"
    by (simp add: blocks_def Schedule_should_block_def curfew_active) (simp add: curfew_def)
  ultimately have b: "blocking monday_env curfew_manager ''example.com'' []
      = [always_schedule ''a'', curfew]"
    by (simp add: blocking_def curfew_manager_def dict_values_def)
  from manager_should_block_order [OF w, of "''example.com''" "[]"] w
  show ?thesis unfolding b by auto
qed

subsection \<open>Untargeted schedules\<close>

lemma late_schedule_raises:
  "Schedule_should_block monday_env late_schedule domain cat = Inl ValueError"
  by (simp add: Schedule_should_block_def is_active_now_def outside_window_def
      late_schedule_def monday_env_def monday_5pm_def contains_def mk_time_def)

text \<open>
  Claim C10, as stated, fails on the manager: its loop has no handler. The curfew is
  enabled, untargeted and active, and blocks every request itself; a manager that also
  holds a schedule of higher priority whose range ends at 24:00 raises \<open>ValueError\<close>
  before it reaches the curfew, and reports nothing.
\<close>

theorem untargeted_schedule_manager_counterexample:
  "s_enabled curfew \<and> s_domains curfew = {} \<and> s_categories curfew = {}
   \<and> is_active_now monday_env curfew = Inr True
   \<and> dict_values (schedules late_manager) = [curfew, late_schedule]
   \<and> Manager_should_block monday_env late_manager ''example.com'' ''gaming''
       = Inl ValueError"
proof -
  have "sorted_schedules late_manager = [late_schedule, curfew]"
    by (simp add: sorted_schedules_def late_manager_def dict_values_def)
       (simp add: late_schedule_def curfew_def)
  then have "Manager_should_block monday_env late_manager ''example.com'' ''gaming''
       = Inl ValueError"
    by (simp add: Manager_should_block_def late_schedule_raises)
  then show ?thesis
    by (simp add: curfew_active) (simp add: curfew_def late_manager_def dict_values_def)
qed

text \<open>
  Claim C10, amended: an enabled schedule without domains and without categories blocks
  every domain and every category while it is active, and a manager that holds it and
  whose schedules are all well-formed (time-range components are those of a time of
  day, date texts parse) then reports a block, with some schedule id, for any input.
\<close>

theorem untargeted_schedule_blocks_all:
  assumes "s_enabled s" and "s_domains s = {}" and "s_categories s = {}"
    and "is_active_now env s = Inr True"
  shows "Schedule_should_block env s domain cat = Inr True
    \<and> (\<forall>m. s \<in> set (dict_values (schedules m)) \<and> schedules_well_formed env m \<longrightarrow>
          (\<exists>i. Manager_should_block env m domain cat = Inr (True, Some i)))"
proof -
  have sb: "Schedule_should_block env s domain cat = Inr True"
    using assms by (simp add: Schedule_should_block_def)
  have "\<exists>i. Manager_should_block env m domain cat = Inr (True, Some i)"
    if mem: "s \<in> set (dict_values (schedules m))" and wf: "schedules_well_formed env m" for m
  proof -
    from mem have "s \<in> set (sorted_schedules m)" by (simp add: sorted_schedules_def)
    moreover have "blocks env s domain cat" using sb by (simp add: blocks_def)
    ultimately have "find (\<lambda>s. blocks env s domain cat) (sorted_schedules m) \<noteq> None"
      by (auto simp: find_None_iff)
    then show ?thesis
      by (auto simp: manager_well_formed[OF wf])
  qed
  with sb show ?thesis by blast
qed

theorem untargeted_schedule_blocks_all_witness:
  "s_enabled curfew \<and> s_domains curfew = {} \<and> s_categories curfew = {}
   \<and> is_active_now monday_env curfew = Inr True
   \<and> Schedule_should_block monday_env curfew ''example.com'' ''gaming'' = Inr True
   \<and> curfew \<in> set (dict_values (schedules curfew_manager))
   \<and> schedules_well_formed monday_env curfew_manager
   \<and> (\<exists>i. Manager_should_block monday_env curfew_manager ''example.com'' ''gaming''
            = Inr (True, Some i))"
proof -
  have h: "s_enabled curfew" "s_domains curfew = {}" "s_categories curfew = {}"
    by (simp_all add: curfew_def)
  have m: "curfew \<in> set (dict_values (schedules curfew_manager))"
    by (simp add: curfew_manager_def dict_values_def)
  have w: "schedules_well_formed monday_env curfew_manager"
    by (simp add: schedules_well_formed_def curfew_manager_def dict_values_def
        curfew_well_formed always_schedule_well_formed)
  from untargeted_schedule_blocks_all [OF h curfew_active, of "''example.com''" "''gaming''"]
    h curfew_active m w
  show ?thesis by blast
qed

subsection \<open>Keyword matching with exclusions and context\<close>

lemma context_loop_elevate:
  "context_loop sev ws t = (if \<exists>w \<in> set ws. py_in (lower w) t then elevate sev else sev)"
  by (induction ws) (cases sev; simp)+

lemma severity_with_context:
  "get_severity_with_context k text =
     (if \<exists>w \<in> set (context_words k). py_in (lower w) (lower text)
      then elevate (severity k) else severity k)"
  by (simp add: get_severity_with_context_def context_loop_elevate)

lemma lower_examples:
  "lower ''searching suicide hotline'' = ''searching suicide hotline''"
  "lower ''how to commit suicide'' = ''how to commit suicide''"
  "lower ''prevention'' = ''prevention''" "lower ''hotline'' = ''hotline''"
  "lower ''suicide'' = ''suicide''" "lower ''how to'' = ''how to''"
  "lower ''method'' = ''method''"
  by (simp_all add: str_simps)

lemma str_find_example: "str_find ''how to commit suicide'' ''suicide'' = Some 14"
  by simp

text \<open>
  Claim C9: for an enabled keyword \<open>suicide\<close> of the contains kind with base severity
  CRITICAL, context words \<open>how to\<close>, \<open>method\<close> and exclusion words \<open>prevention\<close>,
  \<open>hotline\<close>: no text that contains an exclusion word in any letter case matches (so
  \<open>searching suicide hotline\<close> yields no match), \<open>how to commit suicide\<close> matches and
  is recorded with severity CRITICAL, and for every keyword a context word in the text
  raises the base severity by exactly one level, CRITICAL staying CRITICAL.
\<close>

theorem suicide_keyword_matching:
  assumes "kw_enabled k" and "word k = ''suicide''" and "match_type k = CONTAINS"
    and "severity k = CRITICAL"
    and "context_words k = [''how to'', ''method'']"
    and "exclude_words k = [''prevention'', ''hotline'']"
  shows "(\<forall>text. py_in ''prevention'' (lower text) \<or> py_in ''hotline'' (lower text) \<longrightarrow>
            matches R k text = (False, None))
    \<and> matches R k ''searching suicide hotline'' = (False, None)
    \<and> match_keywords R [(kw_id k, k)] ''searching suicide hotline'' loc 50 = []
    \<and> matches R k ''how to commit suicide'' = (True, Some ''suicide'')
    \<and> map km_severity (match_keywords R [(kw_id k, k)] ''how to commit suicide'' loc 50)
        = [CRITICAL]
    \<and> (\<forall>k' text. get_severity_with_context k' text =
          (if \<exists>w \<in> set (context_words k'). py_in (lower w) (lower text)
           then elevate (severity k') else severity k'))"
proof -
  have a: "\<forall>text. py_in ''prevention'' (lower text) \<or> py_in ''hotline'' (lower text) \<longrightarrow>
            matches R k text = (False, None)"
    using assms by (auto simp: matches_def lower_examples)
  have b: "matches R k ''searching suicide hotline'' = (False, None)"
    using assms by (simp add: matches_def lower_examples)
  have c: "matches R k ''how to commit suicide'' = (True, Some ''suicide'')"
    using assms by (simp add: matches_def lower_examples)
  have d: "extract_context ''how to commit suicide'' ''suicide'' 50 = ''how to commit suicide''"
    by (simp add: extract_context_def lower_examples str_find_example)
  have e: "get_severity_with_context k ''how to commit suicide'' = CRITICAL"
    using assms by (simp add: severity_with_context)
  have f: "map km_severity (match_keywords R [(kw_id k, k)] ''how to commit suicide'' loc 50)
        = [CRITICAL]"
    by (simp add: match_keywords_def dict_values_def c d e truthy_def)
  have g: "match_keywords R [(kw_id k, k)] ''searching suicide hotline'' loc 50 = []"
    by (simp add: match_keywords_def dict_values_def b)
  from a b c f g severity_with_context show ?thesis by blast
qed

theorem suicide_keyword_matching_witness:
  "kw_enabled suicide_keyword \<and> word suicide_keyword = ''suicide''
   \<and> match_type suicide_keyword = CONTAINS \<and> severity suicide_keyword = CRITICAL
   \<and> context_words suicide_keyword = [''how to'', ''method'']
   \<and> exclude_words suicide_keyword = [''prevention'', ''hotline'']
   \<and> py_in ''hotline'' (lower ''Call the HOTLINE about suicide'')
   \<and> matches no_re suicide_keyword ''Call the HOTLINE about suicide'' = (False, None)
   \<and> matches no_re suicide_keyword ''searching suicide hotline'' = (False, None)
   \<and> matches no_re suicide_keyword ''how to commit suicide'' = (True, Some ''suicide'')
   \<and> map km_severity
        (match_keywords no_re [(''sh_suicide'', suicide_keyword)] ''how to commit suicide''
           ''body'' 50) = [CRITICAL]"
proof -
  have h: "kw_enabled suicide_keyword" "word suicide_keyword = ''suicide''"
    "match_type suicide_keyword = CONTAINS" "severity suicide_keyword = CRITICAL"
    "context_words suicide_keyword = [''how to'', ''method'']"
    "exclude_words suicide_keyword = [''prevention'', ''hotline'']"
    by (simp_all add: suicide_keyword_def)
  have i: "kw_id suicide_keyword = ''sh_suicide''" by (simp add: suicide_keyword_def)
  have p: "py_in ''hotline'' (lower ''Call the HOTLINE about suicide'')"
    by (simp add: str_simps)
  from suicide_keyword_matching [OF h, of no_re "''body''"] h p show ?thesis
    unfolding i by blast
qed

end
